theory Spec2Isabelle
  imports Main
begin

section \<open>Call duration display (VoiceCallModal.tsx)\<close>

text \<open>
  \<^verbatim>\<open>String(n)\<close> of a non-negative integer: its decimal digits, most significant first,
  with no leading zero.
\<close>

definition digit_char :: "nat \<Rightarrow> char" where
  "digit_char d = ''0123456789'' ! (d mod 10)"

function String_nat :: "nat \<Rightarrow> string" where
  "String_nat n =
     (if n < 10 then [digit_char n] else String_nat (n div 10) @ [digit_char (n mod 10)])"
  by pat_completeness auto
termination
  by (relation "measure (\<lambda>n. n)") auto

declare String_nat.simps [simp del]

text \<open>\<^verbatim>\<open>s.padStart(n, c)\<close> for a one-character pad string \<open>c\<close>.\<close>

definition padStart :: "nat \<Rightarrow> char \<Rightarrow> string \<Rightarrow> string" where
  "padStart n c s = replicate (n - length s) c @ s"

text \<open>
  \<^verbatim>\<open>
  function formatDuration(ms: number) {
    const total = Math.max(0, Math.floor(ms / 1000))
    const h = Math.floor(total / 3600)
    const m = Math.floor((total % 3600) / 60)
    const s = total % 60
    if (h > 0) return `${h}:${String(m).padStart(2, "0")}:${String(s).padStart(2, "0")}`
    return `${m}:${String(s).padStart(2, "0")}`
  }
  \<close>
  The argument is \<open>now - startedAt\<close>, a difference of two \<^verbatim>\<open>Date.now()\<close> readings, hence
  an integer; \<open>div\<close> on \<open>int\<close> rounds towards minus infinity as \<^verbatim>\<open>Math.floor\<close> does.
\<close>

definition formatDuration :: "int \<Rightarrow> string" where
  "formatDuration ms =
     (let total = nat (max 0 (ms div 1000));
          h = total div 3600;
          m = (total mod 3600) div 60;
          s = total mod 60
      in if h > 0
         then String_nat h @ '':'' @ padStart 2 (CHR ''0'') (String_nat m) @ '':''
                @ padStart 2 (CHR ''0'') (String_nat s)
         else String_nat m @ '':'' @ padStart 2 (CHR ''0'') (String_nat s))"

text \<open>The two-digit, zero-padded rendering of a number below 100.\<close>

definition two_digits :: "nat \<Rightarrow> string" where
  "two_digits n = [digit_char (n div 10), digit_char (n mod 10)]"

section \<open>Call session data (the Page component)\<close>

text \<open>
  The call subsystem of the page is a handful of React state cells and refs, mutated by
  the broadcast handlers of the \<open>calls\<close> channel and by the handlers passed to the call
  modal. Every handler is modelled as one atomic step on the record \<open>page\<close>: a
  \<^verbatim>\<open>setX(v)\<close> is an assignment to the cell, and an \<^verbatim>\<open>await\<close> either resumes at once or
  throws, as the record \<open>env\<close> says.
\<close>

datatype CallState = Incoming | Outgoing | Active

datatype ConnectionStatus = Connecting | Good | Fair | Poor | Disconnected

datatype RTCPeerConnectionState =
  PcNew | PcConnecting | PcConnected | PcDisconnected | PcFailed | PcClosed

datatype RTCSdpType = SdpOffer | SdpAnswer | SdpPranswer | SdpRollback

record RTCSessionDescriptionInit =
  sdp_type :: RTCSdpType
  sdp_text :: string

datatype TrackKind = Audio | Video

text \<open>A media track: \<open>stopped\<close> is set by \<^verbatim>\<open>track.stop()\<close> and never reset.\<close>

record MediaStreamTrack =
  kind :: TrackKind
  enabled :: bool
  stopped :: bool

text \<open>
  Tracks, streams and peer connections are objects shared between refs (a local track is
  held by the local stream and by a sender of the connection), so they live in stores and
  are named by their index.
\<close>

type_synonym track_id = nat
type_synonym stream_id = nat
type_synonym pc_id = nat

type_synonym MediaStream = "track_id list"

type_synonym RTCIceCandidateInit = string

record RTCPeerConnection =
  senders :: "track_id list"
  receivers :: "track_id list"
  localDescription :: "RTCSessionDescriptionInit option"
  remoteDescription :: "RTCSessionDescriptionInit option"
  iceCandidates :: "RTCIceCandidateInit list"
  pc_closed :: bool

record HTMLVideoElement =
  srcObject :: "stream_id option"

record CallContact =
  cc_name :: "string option"
  cc_username :: "string option"
  cc_avatarUrl :: "string option"

record User =
  u_id :: string
  u_username :: string
  u_displayName :: string
  u_avatarUrl :: "string option"

record Contact =
  c_id :: string
  c_name :: string
  c_username :: "string option"
  c_avatarUrl :: "string option"

text \<open>
  The envelope of a signaling event and the fields of the six event kinds. A payload comes
  off the wire untyped, so every field may be missing.
\<close>

datatype EventKind = EvCall | EvAnswer | EvIce | EvDecline | EvHangup | EvCancel

record payload =
  p_callId :: "string option"
  p_from :: "string option"
  p_to :: "string option"
  p_fromName :: "string option"
  p_fromUsername :: "string option"
  p_fromAvatarUrl :: "string option"
  p_sdp :: "RTCSessionDescriptionInit option"
  p_candidate :: "RTCIceCandidateInit option"
  p_ts :: "int option"

text \<open>
  \<open>callSignalChannelRef\<close> holds the channel, or null; the channel is modelled by the list of
  the events sent on it, oldest first.
\<close>

record page =
  callOpen :: bool
  callState :: CallState
  callContact :: "CallContact option"
  callMuted :: bool
  callSpeaker :: bool
  callStartedAt :: "int option"
  connectionStatus :: ConnectionStatus
  callPeerId :: "string option"
  activeCallId :: "string option"
  callSignalChannelRef :: "(EventKind \<times> payload) list option"
  callCameraOff :: bool
  localVideoRef :: "HTMLVideoElement option"
  remoteVideoRef :: "HTMLVideoElement option"
  pcRef :: "pc_id option"
  localStreamRef :: "stream_id option"
  remoteStreamRef :: "stream_id option"
  pendingRemoteSDPRef :: "RTCSessionDescriptionInit option"
  isCallerRef :: bool
  tracks :: "MediaStreamTrack list"
  streams :: "MediaStream list"
  pcs :: "RTCPeerConnection list"

text \<open>
  What the browser answers during one handler run: the clock, and for each call that can
  reject or throw whether it does (\<open>None\<close> or \<open>False\<close>). Where the outcome of a call
  is fixed by the state of the connection (\<open>addTrack\<close>, \<open>addIceCandidate\<close>), the flag stands
  for every other reason to throw.
\<close>

record env =
  now :: int
  getUserMedia :: "MediaStreamTrack list option"
  newPeerConnection_ok :: bool
  addTrack_ok :: bool
  createOffer :: "RTCSessionDescriptionInit option"
  createAnswer :: "RTCSessionDescriptionInit option"
  setLocalDescription_ok :: bool
  setRemoteDescription_ok :: bool
  addIceCandidate_ok :: bool
  send_ok :: bool

text \<open>
  The result of a step that may throw: the state reached when it threw, or its value and
  the state after it.
\<close>

datatype 'a outcome = Throw page | Return 'a page

text \<open>The state as the component is first rendered, with the channel subscribed.\<close>

definition initial_page :: page where
  "initial_page =
     \<lparr>callOpen = False, callState = Outgoing, callContact = None, callMuted = False,
      callSpeaker = False, callStartedAt = None, connectionStatus = Connecting,
      callPeerId = None, activeCallId = None, callSignalChannelRef = Some [],
      callCameraOff = False,
      localVideoRef = Some \<lparr>srcObject = None\<rparr>, remoteVideoRef = Some \<lparr>srcObject = None\<rparr>,
      pcRef = None, localStreamRef = None, remoteStreamRef = None,
      pendingRemoteSDPRef = None, isCallerRef = False,
      tracks = [], streams = [], pcs = []\<rparr>"

section \<open>Media and transport helpers\<close>

text \<open>\<^verbatim>\<open>stream.getTracks()\<close>, and the audio and video tracks among them.\<close>

definition getTracks :: "page \<Rightarrow> stream_id \<Rightarrow> track_id list" where
  "getTracks s sid = (if sid < length (streams s) then streams s ! sid else [])"

definition has_kind :: "page \<Rightarrow> TrackKind \<Rightarrow> track_id \<Rightarrow> bool" where
  "has_kind s k t = (t < length (tracks s) \<and> kind (tracks s ! t) = k)"

definition getAudioTracks :: "page \<Rightarrow> stream_id \<Rightarrow> track_id list" where
  "getAudioTracks s sid = filter (has_kind s Audio) (getTracks s sid)"

definition getVideoTracks :: "page \<Rightarrow> stream_id \<Rightarrow> track_id list" where
  "getVideoTracks s sid = filter (has_kind s Video) (getTracks s sid)"

text \<open>\<^verbatim>\<open>track.stop()\<close> and \<^verbatim>\<open>track.enabled = b\<close> on the tracks named by a list.\<close>

fun stop_tracks :: "track_id list \<Rightarrow> MediaStreamTrack list \<Rightarrow> MediaStreamTrack list" where
  "stop_tracks [] ts = ts"
| "stop_tracks (t # rest) ts =
     stop_tracks rest (if t < length ts then ts[t := (ts ! t)\<lparr>stopped := True\<rparr>] else ts)"

fun set_enabled :: "bool \<Rightarrow> track_id list \<Rightarrow> MediaStreamTrack list \<Rightarrow> MediaStreamTrack list" where
  "set_enabled b [] ts = ts"
| "set_enabled b (t # rest) ts =
     set_enabled b rest (if t < length ts then ts[t := (ts ! t)\<lparr>enabled := b\<rparr>] else ts)"

definition update_pc :: "pc_id \<Rightarrow> (RTCPeerConnection \<Rightarrow> RTCPeerConnection) \<Rightarrow> page \<Rightarrow> page" where
  "update_pc i f s = (if i < length (pcs s) then s\<lparr>pcs := (pcs s)[i := f (pcs s ! i)]\<rparr> else s)"

text \<open>\<^verbatim>\<open>if (ref.current) ref.current.srcObject = v\<close>\<close>

definition set_srcObject ::
  "stream_id option \<Rightarrow> HTMLVideoElement option \<Rightarrow> HTMLVideoElement option" where
  "set_srcObject v r = (case r of None \<Rightarrow> None | Some el \<Rightarrow> Some (el\<lparr>srcObject := v\<rparr>))"

text \<open>
  \<^verbatim>\<open>
  const cleanupCall = React.useCallback(() => {
    try { pcRef.current?.getSenders().forEach((s) => { try { s.track?.stop(); } catch {} }); } catch {}
    try { pcRef.current?.getReceivers().forEach((r) => { try { r.track?.stop(); } catch {} }); } catch {}
    try { pcRef.current?.close(); } catch {}
    pcRef.current = null;
    try { localStreamRef.current?.getTracks().forEach((t) => t.stop()); } catch {}
    try { remoteStreamRef.current?.getTracks().forEach((t) => t.stop()); } catch {}
    localStreamRef.current = null;
    remoteStreamRef.current = null;
    if (localVideoRef.current) localVideoRef.current.srcObject = null;
    if (remoteVideoRef.current) remoteVideoRef.current.srcObject = null;
  }, []);
  \<close>
  Every call that could throw sits in a \<^verbatim>\<open>try\<close> with an empty \<^verbatim>\<open>catch\<close>, so the function
  has no throwing outcome and returns the state alone.
\<close>

definition close_pc :: "page \<Rightarrow> page" where
  "close_pc s =
     (case pcRef s of
        None \<Rightarrow> s
      | Some i \<Rightarrow>
          if i < length (pcs s)
          then (update_pc i (\<lambda>pc. pc\<lparr>pc_closed := True\<rparr>) s)
                 \<lparr>tracks := stop_tracks (receivers (pcs s ! i))
                              (stop_tracks (senders (pcs s ! i)) (tracks s))\<rparr>
          else s)"

definition stop_stream :: "stream_id option \<Rightarrow> page \<Rightarrow> page" where
  "stop_stream r s =
     (case r of None \<Rightarrow> s | Some sid \<Rightarrow> s\<lparr>tracks := stop_tracks (getTracks s sid) (tracks s)\<rparr>)"


definition cleanupCall :: "page \<Rightarrow> page" where
  "cleanupCall s =
     (let s1 = (close_pc s)\<lparr>pcRef := None\<rparr>;
          s2 = stop_stream (localStreamRef s1) s1;
          s3 = stop_stream (remoteStreamRef s2) s2
      in s3\<lparr>localStreamRef := None, remoteStreamRef := None,
             localVideoRef := set_srcObject None (localVideoRef s3),
             remoteVideoRef := set_srcObject None (remoteVideoRef s3)\<rparr>)"

text \<open>
  \<^verbatim>\<open>
  const ensureLocalMedia = React.useCallback(async () => {
    if (localStreamRef.current) return localStreamRef.current;
    const stream = await navigator.mediaDevices.getUserMedia({ audio: true, video: true });
    localStreamRef.current = stream;
    if (localVideoRef.current) localVideoRef.current.srcObject = stream;
    return stream;
  }, []);
  \<close>
\<close>

definition ensureLocalMedia :: "env \<Rightarrow> page \<Rightarrow> stream_id outcome" where
  "ensureLocalMedia e s =
     (case localStreamRef s of
        Some sid \<Rightarrow> Return sid s
      | None \<Rightarrow>
          (case getUserMedia e of
             None \<Rightarrow> Throw s
           | Some ts \<Rightarrow>
               let sid = length (streams s);
                   ids = [length (tracks s) ..< length (tracks s) + length ts]
               in Return sid
                    (s\<lparr>tracks := tracks s @ ts, streams := streams s @ [ids],
                       localStreamRef := Some sid,
                       localVideoRef := set_srcObject (Some sid) (localVideoRef s)\<rparr>)))"

text \<open>
  \<^verbatim>\<open>
  const setupPeerConnection = React.useCallback(() => {
    if (pcRef.current) return pcRef.current;
    const pc = new RTCPeerConnection(rtcConfig.current);
    pc.onicecandidate = ...; pc.ontrack = ...; pc.onconnectionstatechange = ...;
    pcRef.current = pc;
    return pc;
  }, [activeCallId, callPeerId, sessionUser?.id]);
  \<close>
  The callbacks registered here run later, as steps of their own (\<open>ontrack\<close>,
  \<open>onconnectionstatechange\<close> below).
\<close>

definition new_pc :: RTCPeerConnection where
  "new_pc = \<lparr>senders = [], receivers = [], localDescription = None, remoteDescription = None,
             iceCandidates = [], pc_closed = False\<rparr>"

definition setupPeerConnection :: "env \<Rightarrow> page \<Rightarrow> pc_id outcome" where
  "setupPeerConnection e s =
     (case pcRef s of
        Some i \<Rightarrow> Return i s
      | None \<Rightarrow>
          if newPeerConnection_ok e
          then Return (length (pcs s)) (s\<lparr>pcs := pcs s @ [new_pc], pcRef := Some (length (pcs s))\<rparr>)
          else Throw s)"

text \<open>
  \<^verbatim>\<open>
  pc.ontrack = (e) => {
    let remote = remoteStreamRef.current;
    if (!remote) {
      remote = new MediaStream();
      remoteStreamRef.current = remote;
      if (remoteVideoRef.current) remoteVideoRef.current.srcObject = remote;
    }
    e.streams[0]?.getTracks().forEach((t) => {
      if (!remote!.getTracks().includes(t)) remote!.addTrack(t);
    });
  };
  \<close>
  The argument is the track list of \<^verbatim>\<open>e.streams[0]\<close>, or \<open>None\<close> when the event has no stream.
\<close>

fun add_missing :: "track_id list \<Rightarrow> MediaStream \<Rightarrow> MediaStream" where
  "add_missing [] st = st"
| "add_missing (t # rest) st = add_missing rest (if t \<in> set st then st else st @ [t])"

definition ontrack :: "track_id list option \<Rightarrow> page \<Rightarrow> page" where
  "ontrack ev_stream s =
     (let s1 = (case remoteStreamRef s of
                  Some r \<Rightarrow> s
                | None \<Rightarrow>
                    s\<lparr>streams := streams s @ [[]],
                      remoteStreamRef := Some (length (streams s)),
                      remoteVideoRef := set_srcObject (Some (length (streams s))) (remoteVideoRef s)\<rparr>)
      in case (remoteStreamRef s1, ev_stream) of
           (Some r, Some ts) \<Rightarrow>
             if r < length (streams s1)
             then s1\<lparr>streams := (streams s1)[r := add_missing ts (streams s1 ! r)]\<rparr>
             else s1
         | _ \<Rightarrow> s1)"

text \<open>
  \<^verbatim>\<open>
  pc.onconnectionstatechange = () => {
    const st = pc.connectionState;
    if (st === "connected") setConnectionStatus("good");
    else if (st === "connecting") setConnectionStatus("connecting");
    else if (st === "disconnected" || st === "failed") setConnectionStatus("disconnected");
  };
  \<close>
  The argument is the value read from \<^verbatim>\<open>pc.connectionState\<close>.
\<close>

definition onconnectionstatechange :: "RTCPeerConnectionState \<Rightarrow> page \<Rightarrow> page" where
  "onconnectionstatechange st s =
     (if st = PcConnected then s\<lparr>connectionStatus := Good\<rparr>
      else if st = PcConnecting then s\<lparr>connectionStatus := Connecting\<rparr>
      else if st = PcDisconnected \<or> st = PcFailed then s\<lparr>connectionStatus := Disconnected\<rparr>
      else s)"

text \<open>
  The calls on the connection: each either throws or records its argument. A call on a
  closed connection throws.
\<close>

definition open_pc :: "page \<Rightarrow> pc_id \<Rightarrow> bool" where
  "open_pc s i = (i < length (pcs s) \<and> \<not> pc_closed (pcs s ! i))"

text \<open>
  \<^verbatim>\<open>pc.addTrack(t, stream)\<close> throws when the connection already has a sender for the
  track; otherwise it appends a sender.
\<close>

definition addTrack :: "env \<Rightarrow> pc_id \<Rightarrow> track_id \<Rightarrow> page \<Rightarrow> unit outcome" where
  "addTrack e i t s =
     (if open_pc s i \<and> t \<notin> set (senders (pcs s ! i)) \<and> addTrack_ok e
      then Return () (update_pc i (\<lambda>pc. pc\<lparr>senders := senders pc @ [t]\<rparr>) s)
      else Throw s)"

text \<open>
  \<^verbatim>\<open>stream.getTracks().forEach((t) => pc.addTrack(t, stream))\<close>, the argument being the
  track list of the stream: the tracks are attached one by one, and the first throw ends
  the loop with the earlier senders in place.
\<close>

fun attachTracks :: "env \<Rightarrow> pc_id \<Rightarrow> track_id list \<Rightarrow> page \<Rightarrow> unit outcome" where
  "attachTracks e i [] s = Return () s"
| "attachTracks e i (t # ts) s =
     (case addTrack e i t s of
        Throw s1 \<Rightarrow> Throw s1
      | Return _ s1 \<Rightarrow> attachTracks e i ts s1)"

definition setLocalDescription ::
  "env \<Rightarrow> pc_id \<Rightarrow> RTCSessionDescriptionInit \<Rightarrow> page \<Rightarrow> unit outcome" where
  "setLocalDescription e i d s =
     (if setLocalDescription_ok e
      then Return () (update_pc i (\<lambda>pc. pc\<lparr>localDescription := Some d\<rparr>) s)
      else Throw s)"

definition setRemoteDescription ::
  "env \<Rightarrow> pc_id \<Rightarrow> RTCSessionDescriptionInit \<Rightarrow> page \<Rightarrow> unit outcome" where
  "setRemoteDescription e i d s =
     (if setRemoteDescription_ok e
      then Return () (update_pc i (\<lambda>pc. pc\<lparr>remoteDescription := Some d\<rparr>) s)
      else Throw s)"

text \<open>
  \<^verbatim>\<open>pc.addIceCandidate(c)\<close> rejects while the connection has no remote description;
  otherwise the candidate is added to those the connection holds.
\<close>

definition addIceCandidate ::
  "env \<Rightarrow> pc_id \<Rightarrow> RTCIceCandidateInit \<Rightarrow> page \<Rightarrow> unit outcome" where
  "addIceCandidate e i c s =
     (if open_pc s i \<and> remoteDescription (pcs s ! i) \<noteq> None \<and> addIceCandidate_ok e
      then Return () (update_pc i (\<lambda>pc. pc\<lparr>iceCandidates := iceCandidates pc @ [c]\<rparr>) s)
      else Throw s)"

text \<open>
  \<^verbatim>\<open>
  const sendCallEvent = React.useCallback(
    async (event, payload) => {
      const channel = callSignalChannelRef.current;
      if (!channel) return;
      await channel.send({ type: "broadcast", event, payload });
    }, []);
  \<close>
\<close>

definition sendCallEvent :: "env \<Rightarrow> EventKind \<Rightarrow> payload \<Rightarrow> page \<Rightarrow> unit outcome" where
  "sendCallEvent e ev p s =
     (case callSignalChannelRef s of
        None \<Rightarrow> Return () s
      | Some sent \<Rightarrow>
          if send_ok e then Return () (s\<lparr>callSignalChannelRef := Some (sent @ [(ev, p)])\<rparr>)
          else Throw s)"

text \<open>\<^verbatim>\<open>try { ... } catch {}\<close>: whatever state the body reached.\<close>

definition swallow :: "'a outcome \<Rightarrow> page" where
  "swallow r = (case r of Throw s \<Rightarrow> s | Return _ s \<Rightarrow> s)"

text \<open>JavaScript truthiness of a string that may be null or undefined, and \<^verbatim>\<open>x || null\<close>.\<close>

definition truthy :: "string option \<Rightarrow> bool" where
  "truthy x = (case x of None \<Rightarrow> False | Some v \<Rightarrow> v \<noteq> [])"

definition or_null :: "string option \<Rightarrow> string option" where
  "or_null x = (if truthy x then x else None)"

section \<open>Inbound signaling: the broadcast handlers of the calls channel\<close>

text \<open>
  \<^verbatim>\<open>
  .on("broadcast", { event: "call" }, ({ payload }) => {
    try {
      if (!payload || payload.to !== myId) return;
      setActiveCallId(payload.callId || null);
      setCallPeerId(payload.from);
      setCallContact({ name: payload.fromName, username: payload.fromUsername,
                       avatarUrl: payload.fromAvatarUrl });
      setCallState("incoming");
      setConnectionStatus("connecting");
      setCallMuted(false);
      setCallSpeaker(false);
      setCallStartedAt(undefined);
      if (payload.sdp && payload.sdp.type === "offer") {
        pendingRemoteSDPRef.current = payload.sdp as RTCSessionDescriptionInit;
      }
      setCallOpen(true);
    } catch (_e) {}
  })
  \<close>
\<close>

definition on_call :: "string \<Rightarrow> payload option \<Rightarrow> page \<Rightarrow> page" where
  "on_call myId pl s =
     (case pl of
        None \<Rightarrow> s
      | Some p \<Rightarrow>
          if p_to p \<noteq> Some myId then s
          else s\<lparr>activeCallId := or_null (p_callId p),
                 callPeerId := p_from p,
                 callContact := Some \<lparr>cc_name = p_fromName p, cc_username = p_fromUsername p,
                                      cc_avatarUrl = p_fromAvatarUrl p\<rparr>,
                 callState := Incoming,
                 connectionStatus := Connecting,
                 callMuted := False,
                 callSpeaker := False,
                 callStartedAt := None,
                 pendingRemoteSDPRef :=
                   (case p_sdp p of
                      None \<Rightarrow> pendingRemoteSDPRef s
                    | Some d \<Rightarrow> if sdp_type d = SdpOffer then Some d else pendingRemoteSDPRef s),
                 callOpen := True\<rparr>)"

text \<open>
  \<^verbatim>\<open>
  .on("broadcast", { event: "answer" }, async ({ payload }) => {
    try {
      if (!payload || payload.to !== myId) return;
      if (payload.sdp && payload.sdp.type === "answer" && pcRef.current) {
        await pcRef.current.setRemoteDescription(payload.sdp as RTCSessionDescriptionInit);
      }
      setCallState("active");
      setConnectionStatus("good");
      setCallStartedAt(Date.now());
    } catch (_e) {}
  })
  \<close>
\<close>

definition on_answer :: "string \<Rightarrow> env \<Rightarrow> payload option \<Rightarrow> page \<Rightarrow> page" where
  "on_answer myId e pl s =
     (case pl of
        None \<Rightarrow> s
      | Some p \<Rightarrow>
          if p_to p \<noteq> Some myId then s
          else
            (case (case (p_sdp p, pcRef s) of
                     (Some d, Some i) \<Rightarrow>
                       if sdp_type d = SdpAnswer then setRemoteDescription e i d s
                       else Return () s
                   | _ \<Rightarrow> Return () s) of
               Throw s1 \<Rightarrow> s1
             | Return _ s1 \<Rightarrow>
                 s1\<lparr>callState := Active, connectionStatus := Good,
                    callStartedAt := Some (now e)\<rparr>))"

text \<open>
  \<^verbatim>\<open>
  .on("broadcast", { event: "ice" }, async ({ payload }) => {
    try {
      if (!payload || payload.to !== myId) return;
      if (!pcRef.current || !payload.candidate) return;
      await pcRef.current.addIceCandidate(payload.candidate);
    } catch (_e) {}
  })
  \<close>
\<close>

definition on_ice :: "string \<Rightarrow> env \<Rightarrow> payload option \<Rightarrow> page \<Rightarrow> page" where
  "on_ice myId e pl s =
     (case pl of
        None \<Rightarrow> s
      | Some p \<Rightarrow>
          if p_to p \<noteq> Some myId then s
          else
            (case (pcRef s, p_candidate p) of
               (Some i, Some c) \<Rightarrow> swallow (addIceCandidate e i c s)
             | _ \<Rightarrow> s))"

text \<open>
  The handlers of \<open>decline\<close>, \<open>hangup\<close> and \<open>cancel\<close> have one and the same body:
  \<^verbatim>\<open>
  .on("broadcast", { event: "decline" }, ({ payload }) => {
    try {
      if (!payload || payload.to !== myId) return;
      cleanupCall();
      setCallOpen(false);
      setCallStartedAt(undefined);
      setActiveCallId(null);
      setCallPeerId(null);
    } catch (_e) {}
  })
  \<close>
\<close>

definition on_decline :: "string \<Rightarrow> payload option \<Rightarrow> page \<Rightarrow> page" where
  "on_decline myId pl s =
     (case pl of
        None \<Rightarrow> s
      | Some p \<Rightarrow>
          if p_to p \<noteq> Some myId then s
          else (cleanupCall s)\<lparr>callOpen := False, callStartedAt := None,
                                activeCallId := None, callPeerId := None\<rparr>)"

definition on_hangup :: "string \<Rightarrow> payload option \<Rightarrow> page \<Rightarrow> page" where
  "on_hangup myId pl s =
     (case pl of
        None \<Rightarrow> s
      | Some p \<Rightarrow>
          if p_to p \<noteq> Some myId then s
          else (cleanupCall s)\<lparr>callOpen := False, callStartedAt := None,
                                activeCallId := None, callPeerId := None\<rparr>)"

definition on_cancel :: "string \<Rightarrow> payload option \<Rightarrow> page \<Rightarrow> page" where
  "on_cancel myId pl s =
     (case pl of
        None \<Rightarrow> s
      | Some p \<Rightarrow>
          if p_to p \<noteq> Some myId then s
          else (cleanupCall s)\<lparr>callOpen := False, callStartedAt := None,
                                activeCallId := None, callPeerId := None\<rparr>)"

text \<open>The channel calls the handler registered for the kind of the received event.\<close>

fun on_broadcast :: "string \<Rightarrow> env \<Rightarrow> EventKind \<Rightarrow> payload option \<Rightarrow> page \<Rightarrow> page" where
  "on_broadcast myId e EvCall pl s = on_call myId pl s"
| "on_broadcast myId e EvAnswer pl s = on_answer myId e pl s"
| "on_broadcast myId e EvIce pl s = on_ice myId e pl s"
| "on_broadcast myId e EvDecline pl s = on_decline myId pl s"
| "on_broadcast myId e EvHangup pl s = on_hangup myId pl s"
| "on_broadcast myId e EvCancel pl s = on_cancel myId pl s"

section \<open>Local intents: starting a call and the handlers of the call modal\<close>

definition String_int :: "int \<Rightarrow> string" where
  "String_int i = (if i < 0 then ''-'' @ String_nat (nat (- i)) else String_nat (nat i))"

text \<open>
  \<^verbatim>\<open>
  const handleStartCall = React.useCallback(() => {
    if (!activeContact || !currentUser) return;
    const newCallId = `call_${Date.now()}`;
    setActiveCallId(newCallId);
    setCallPeerId(activeContact.id);
    setCallContact({ name: activeContact.name, username: activeContact.username,
                     avatarUrl: activeContact.avatarUrl });
    setCallState("outgoing");
    setConnectionStatus("connecting");
    setCallMuted(false);
    setCallSpeaker(false);
    setCallCameraOff(false);
    setCallStartedAt(undefined);
    setCallOpen(true);
    isCallerRef.current = true;
    (async () => {
      try {
        const stream = await ensureLocalMedia();
        const pc = setupPeerConnection();
        stream.getTracks().forEach((t) => pc.addTrack(t, stream));
        const offer = await pc.createOffer({ offerToReceiveAudio: true, offerToReceiveVideo: true });
        await pc.setLocalDescription(offer);
        await sendCallEvent("call", { callId: newCallId, from: currentUser.id,
          fromName: currentUser.displayName, fromUsername: currentUser.username,
          fromAvatarUrl: currentUser.avatarUrl ?? undefined, to: activeContact.id,
          sdp: offer, ts: Date.now() });
      } catch (_e) {
        cleanupCall();
        setCallOpen(false);
        setActiveCallId(null);
        setCallPeerId(null);
      }
    })();
  }, [...]);
  \<close>
  \<open>offer_flow\<close> is the body of the \<^verbatim>\<open>try\<close>.
\<close>

definition offer_flow :: "env \<Rightarrow> string \<Rightarrow> User \<Rightarrow> Contact \<Rightarrow> page \<Rightarrow> unit outcome" where
  "offer_flow e newCallId cu ac s =
     (case ensureLocalMedia e s of
        Throw s1 \<Rightarrow> Throw s1
      | Return sid s1 \<Rightarrow>
     (case setupPeerConnection e s1 of
        Throw s2 \<Rightarrow> Throw s2
      | Return i s2 \<Rightarrow>
     (case attachTracks e i (getTracks s2 sid) s2 of
        Throw s3 \<Rightarrow> Throw s3
      | Return _ s3 \<Rightarrow>
     (case createOffer e of
        None \<Rightarrow> Throw s3
      | Some offer \<Rightarrow>
     (case setLocalDescription e i offer s3 of
        Throw s4 \<Rightarrow> Throw s4
      | Return _ s4 \<Rightarrow>
          sendCallEvent e EvCall
            \<lparr>p_callId = Some newCallId, p_from = Some (u_id cu), p_to = Some (c_id ac),
             p_fromName = Some (u_displayName cu), p_fromUsername = Some (u_username cu),
             p_fromAvatarUrl = u_avatarUrl cu, p_sdp = Some offer, p_candidate = None,
             p_ts = Some (now e)\<rparr> s4)))))"

definition handleStartCall :: "env \<Rightarrow> Contact option \<Rightarrow> User option \<Rightarrow> page \<Rightarrow> page" where
  "handleStartCall e activeContact currentUser s =
     (case (activeContact, currentUser) of
        (Some ac, Some cu) \<Rightarrow>
          let newCallId = ''call_'' @ String_int (now e);
              s0 = s\<lparr>activeCallId := Some newCallId,
                      callPeerId := Some (c_id ac),
                      callContact := Some \<lparr>cc_name = Some (c_name ac),
                                           cc_username = c_username ac,
                                           cc_avatarUrl = c_avatarUrl ac\<rparr>,
                      callState := Outgoing,
                      connectionStatus := Connecting,
                      callMuted := False,
                      callSpeaker := False,
                      callCameraOff := False,
                      callStartedAt := None,
                      callOpen := True,
                      isCallerRef := True\<rparr>
          in (case offer_flow e newCallId cu ac s0 of
                Return _ s1 \<Rightarrow> s1
              | Throw s1 \<Rightarrow>
                  (cleanupCall s1)\<lparr>callOpen := False, activeCallId := None, callPeerId := None\<rparr>)
      | _ \<Rightarrow> s)"

text \<open>
  \<^verbatim>\<open>
  onAnswer={() => {
    (async () => {
      try {
        isCallerRef.current = false;
        const pc = setupPeerConnection();
        const stream = await ensureLocalMedia();
        setCallCameraOff(false);
        stream.getTracks().forEach((t) => pc.addTrack(t, stream));
        const remoteSDP = pendingRemoteSDPRef.current;
        if (remoteSDP && remoteSDP.type === "offer") {
          await pc.setRemoteDescription(remoteSDP);
        }
        const answer = await pc.createAnswer();
        await pc.setLocalDescription(answer);
        setCallState("active");
        setConnectionStatus("good");
        setCallStartedAt(Date.now());
        if (callPeerId && activeCallId && currentUser) {
          await sendCallEvent("answer", { callId: activeCallId, from: currentUser.id,
                                          to: callPeerId, sdp: answer, ts: Date.now() });
        }
      } catch { /* noop */ }
    })();
  }}
  \<close>
  \<open>answer_flow\<close> is the body of the \<^verbatim>\<open>try\<close>.
\<close>

definition envelope :: "page \<Rightarrow> env \<Rightarrow> User \<Rightarrow> payload" where
  \<comment> \<open>\<^verbatim>\<open>{ callId: activeCallId, from: currentUser.id, to: callPeerId, ts: Date.now() }\<close>\<close>
  "envelope s e cu =
     \<lparr>p_callId = activeCallId s, p_from = Some (u_id cu), p_to = callPeerId s,
      p_fromName = None, p_fromUsername = None, p_fromAvatarUrl = None,
      p_sdp = None, p_candidate = None, p_ts = Some (now e)\<rparr>"

definition answer_flow :: "env \<Rightarrow> User option \<Rightarrow> page \<Rightarrow> unit outcome" where
  "answer_flow e currentUser s =
     (case setupPeerConnection e (s\<lparr>isCallerRef := False\<rparr>) of
        Throw s1 \<Rightarrow> Throw s1
      | Return i s1 \<Rightarrow>
     (case ensureLocalMedia e s1 of
        Throw s2 \<Rightarrow> Throw s2
      | Return sid s2 \<Rightarrow>
     (case attachTracks e i (getTracks s2 sid) (s2\<lparr>callCameraOff := False\<rparr>) of
        Throw s3 \<Rightarrow> Throw s3
      | Return _ s3 \<Rightarrow>
     (case (case pendingRemoteSDPRef s3 of
              None \<Rightarrow> Return () s3
            | Some d \<Rightarrow>
                if sdp_type d = SdpOffer then setRemoteDescription e i d s3
                else Return () s3) of
        Throw s4 \<Rightarrow> Throw s4
      | Return _ s4 \<Rightarrow>
     (case createAnswer e of
        None \<Rightarrow> Throw s4
      | Some ans \<Rightarrow>
     (case setLocalDescription e i ans s4 of
        Throw s5 \<Rightarrow> Throw s5
      | Return _ s5 \<Rightarrow>
          (let s6 = s5\<lparr>callState := Active, connectionStatus := Good,
                         callStartedAt := Some (now e)\<rparr>
           in case currentUser of
                None \<Rightarrow> Return () s6
              | Some cu \<Rightarrow>
                  if truthy (callPeerId s6) \<and> truthy (activeCallId s6)
                  then sendCallEvent e EvAnswer ((envelope s6 e cu)\<lparr>p_sdp := Some ans\<rparr>) s6
                  else Return () s6)))))))"

definition onAnswer :: "env \<Rightarrow> User option \<Rightarrow> page \<Rightarrow> page" where
  "onAnswer e currentUser s = swallow (answer_flow e currentUser s)"

text \<open>
  \<open>onDecline\<close>, \<open>onHangup\<close> and \<open>onCancel\<close> differ in the name of the event they send only:
  \<^verbatim>\<open>
  onDecline={() => {
    setCallOpen(false);
    setCallStartedAt(undefined);
    cleanupCall();
    if (callPeerId && activeCallId && currentUser) {
      sendCallEvent("decline", { callId: activeCallId, from: currentUser.id,
                                 to: callPeerId, ts: Date.now() });
    }
    setActiveCallId(null);
    setCallPeerId(null);
  }}
  \<close>
  The send is not awaited: a rejection changes nothing here.
\<close>

definition end_and_notify :: "EventKind \<Rightarrow> env \<Rightarrow> User option \<Rightarrow> page \<Rightarrow> page" where
  "end_and_notify ev e currentUser s =
     (let s1 = cleanupCall (s\<lparr>callOpen := False, callStartedAt := None\<rparr>);
          s2 = (case currentUser of
                  None \<Rightarrow> s1
                | Some cu \<Rightarrow>
                    if truthy (callPeerId s1) \<and> truthy (activeCallId s1)
                    then swallow (sendCallEvent e ev (envelope s1 e cu) s1)
                    else s1)
      in s2\<lparr>activeCallId := None, callPeerId := None\<rparr>)"

definition onDecline :: "env \<Rightarrow> User option \<Rightarrow> page \<Rightarrow> page" where
  "onDecline = end_and_notify EvDecline"

definition onHangup :: "env \<Rightarrow> User option \<Rightarrow> page \<Rightarrow> page" where
  "onHangup = end_and_notify EvHangup"

definition onCancel :: "env \<Rightarrow> User option \<Rightarrow> page \<Rightarrow> page" where
  "onCancel = end_and_notify EvCancel"

text \<open>
  \<^verbatim>\<open>
  onCameraToggle={(off) => {
    setCallCameraOff(off);
    try {
      const stream = localStreamRef.current;
      stream?.getVideoTracks().forEach((t) => (t.enabled = !off));
    } catch {}
  }}
  onMuteToggle={(m) => {
    setCallMuted(m);
    try {
      const stream = localStreamRef.current;
      stream?.getAudioTracks().forEach((t) => (t.enabled = !m));
    } catch {}
  }}
  onSpeakerToggle={(s) => setCallSpeaker(s)}
  \<close>
\<close>

definition onCameraToggle :: "bool \<Rightarrow> page \<Rightarrow> page" where
  "onCameraToggle off s =
     (case localStreamRef s of
        None \<Rightarrow> s\<lparr>callCameraOff := off\<rparr>
      | Some sid \<Rightarrow>
          s\<lparr>callCameraOff := off,
            tracks := set_enabled (\<not> off) (getVideoTracks s sid) (tracks s)\<rparr>)"

definition onMuteToggle :: "bool \<Rightarrow> page \<Rightarrow> page" where
  "onMuteToggle m s =
     (case localStreamRef s of
        None \<Rightarrow> s\<lparr>callMuted := m\<rparr>
      | Some sid \<Rightarrow>
          s\<lparr>callMuted := m,
            tracks := set_enabled (\<not> m) (getAudioTracks s sid) (tracks s)\<rparr>)"

definition onSpeakerToggle :: "bool \<Rightarrow> page \<Rightarrow> page" where
  "onSpeakerToggle sp s = s\<lparr>callSpeaker := sp\<rparr>"

section \<open>Runs\<close>

text \<open>
  The event loop runs one handler at a time. An action is one handler run together with
  what the browser answers during it; a run is a list of actions, first to last.
\<close>

datatype action =
    Broadcast env EventKind "payload option"
  | StartCall env "Contact option" "User option"
  | Answer env "User option"
  | Decline env "User option"
  | Hangup env "User option"
  | Cancel env "User option"
  | MuteToggle bool
  | CameraToggle bool
  | SpeakerToggle bool
  | Track "track_id list option"
  | ConnectionStateChange RTCPeerConnectionState

fun step :: "string \<Rightarrow> action \<Rightarrow> page \<Rightarrow> page" where
  "step myId (Broadcast e k pl) s = on_broadcast myId e k pl s"
| "step myId (StartCall e ac cu) s = handleStartCall e ac cu s"
| "step myId (Answer e cu) s = onAnswer e cu s"
| "step myId (Decline e cu) s = onDecline e cu s"
| "step myId (Hangup e cu) s = onHangup e cu s"
| "step myId (Cancel e cu) s = onCancel e cu s"
| "step myId (MuteToggle m) s = onMuteToggle m s"
| "step myId (CameraToggle off) s = onCameraToggle off s"
| "step myId (SpeakerToggle sp) s = onSpeakerToggle sp s"
| "step myId (Track ts) s = ontrack ts s"
| "step myId (ConnectionStateChange st) s = onconnectionstatechange st s"

fun run :: "string \<Rightarrow> action list \<Rightarrow> page \<Rightarrow> page" where
  "run myId [] s = s"
| "run myId (a # as) s = run myId as (step myId a s)"

text \<open>An action is foreign when it is a broadcast event not addressed to the local party.\<close>

fun foreign :: "string \<Rightarrow> action \<Rightarrow> bool" where
  "foreign myId (Broadcast e k pl) = (case pl of None \<Rightarrow> True | Some p \<Rightarrow> p_to p \<noteq> Some myId)"
| "foreign myId _ = False"

section \<open>Scenarios\<close>

text \<open>
  Concrete parties, browser answers and events, used to run the model: the local user
  \<open>me\<close>, the contact \<open>bob\<close>, a microphone and a camera track, and a browser in which every
  call succeeds at clock reading \<open>t\<close>.
\<close>

definition me :: User where
  "me = \<lparr>u_id = ''me'', u_username = ''me'', u_displayName = ''Me'', u_avatarUrl = None\<rparr>"

definition bob :: Contact where
  "bob = \<lparr>c_id = ''bob'', c_name = ''Bob'', c_username = Some ''bob'', c_avatarUrl = None\<rparr>"

definition mic :: MediaStreamTrack where
  "mic = \<lparr>kind = Audio, enabled = True, stopped = False\<rparr>"

definition cam :: MediaStreamTrack where
  "cam = \<lparr>kind = Video, enabled = True, stopped = False\<rparr>"

definition offer_sdp :: RTCSessionDescriptionInit where
  "offer_sdp = \<lparr>sdp_type = SdpOffer, sdp_text = ''v=0 offer''\<rparr>"

definition answer_sdp :: RTCSessionDescriptionInit where
  "answer_sdp = \<lparr>sdp_type = SdpAnswer, sdp_text = ''v=0 answer''\<rparr>"

definition env_ok :: "int \<Rightarrow> env" where
  "env_ok t =
     \<lparr>now = t, getUserMedia = Some [mic, cam], newPeerConnection_ok = True,
      addTrack_ok = True, createOffer = Some offer_sdp, createAnswer = Some answer_sdp,
      setLocalDescription_ok = True, setRemoteDescription_ok = True,
      addIceCandidate_ok = True, send_ok = True\<rparr>"

text \<open>An envelope from \<open>bob\<close> to \<open>me\<close> for the call \<open>cid\<close>, with no kind-specific field.\<close>

definition from_bob :: "string \<Rightarrow> payload" where
  "from_bob cid =
     \<lparr>p_callId = Some cid, p_from = Some ''bob'', p_to = Some ''me'',
      p_fromName = None, p_fromUsername = None, p_fromAvatarUrl = None,
      p_sdp = None, p_candidate = None, p_ts = Some 0\<rparr>"

text \<open>
  The caller's side of the happy path: \<open>me\<close> starts a call to \<open>bob\<close> at clock reading 1000
  (so the call is \<open>call_1000\<close>) and receives bob's answer at 2000.
\<close>

definition caller_active :: page where
  "caller_active =
     run ''me''
       [StartCall (env_ok 1000) (Some bob) (Some me),
        Broadcast (env_ok 2000) EvAnswer (Some ((from_bob ''call_1000'')\<lparr>p_sdp := Some answer_sdp\<rparr>))]
       initial_page"

text \<open>The callee's side before answering: \<open>me\<close> has received bob's offer for the call \<open>c1\<close>.\<close>

definition callee_incoming :: page where
  "callee_incoming =
     run ''me''
       [Broadcast (env_ok 1000) EvCall (Some ((from_bob ''c1'')\<lparr>p_sdp := Some offer_sdp\<rparr>))]
       initial_page"

text \<open>
  A candidate from bob for the call \<open>c1\<close>, a browser in which the capture devices are
  refused, and an offer from a third party, \<open>carol\<close>, for a call \<open>c2\<close>.
\<close>

definition early_ice :: action where
  "early_ice = Broadcast (env_ok 1500) EvIce (Some ((from_bob ''c1'')\<lparr>p_candidate := Some ''k1''\<rparr>))"

definition env_no_media :: "int \<Rightarrow> env" where
  "env_no_media t = (env_ok t)\<lparr>getUserMedia := None\<rparr>"

definition carol_call :: payload where
  "carol_call =
     \<lparr>p_callId = Some ''c2'', p_from = Some ''carol'', p_to = Some ''me'',
      p_fromName = Some ''Carol'', p_fromUsername = Some ''carol'', p_fromAvatarUrl = None,
      p_sdp = Some offer_sdp, p_candidate = None, p_ts = Some 0\<rparr>"

text \<open>
  A hang-up for the call \<open>call_1000\<close> addressed to \<open>carol\<close>, which every subscriber of the
  shared channel receives.
\<close>

definition foreign_hangup :: action where
  "foreign_hangup =
     Broadcast (env_ok 3000) EvHangup (Some ((from_bob ''call_1000'')\<lparr>p_to := Some ''carol''\<rparr>))"

text \<open>The \<open>ice\<close> events carrying the candidates \<open>cs\<close>, one each, in the envelope \<open>p\<close>.\<close>

definition ice_events :: "env \<Rightarrow> payload \<Rightarrow> RTCIceCandidateInit list \<Rightarrow> action list" where
  "ice_events e p cs = map (\<lambda>c. Broadcast e EvIce (Some (p\<lparr>p_candidate := Some c\<rparr>))) cs"

text \<open>
  The caller's side before the answer: \<open>me\<close> has started the call \<open>call_1000\<close> to \<open>bob\<close>, so a
  connection exists, with the offer as its local description and no remote description.
\<close>

definition caller_outgoing :: page where
  "caller_outgoing = run ''me'' [StartCall (env_ok 1000) (Some bob) (Some me)] initial_page"

text \<open>
  The tracks that the four \<^verbatim>\<open>forEach\<close> loops of \<open>cleanupCall\<close> visit: those of the senders and
  of the receivers of the referenced connection, then those of the local and of the remote
  stream.
\<close>

definition held_tracks :: "page \<Rightarrow> track_id list" where
  "held_tracks s =
     (case pcRef s of
        None \<Rightarrow> []
      | Some i \<Rightarrow> if i < length (pcs s) then senders (pcs s ! i) @ receivers (pcs s ! i) else [])
     @ (case localStreamRef s of None \<Rightarrow> [] | Some sid \<Rightarrow> getTracks s sid)
     @ (case remoteStreamRef s of None \<Rightarrow> [] | Some sid \<Rightarrow> getTracks s sid)"


section \<open>Properties of the duration display\<close>

lemma String_nat_small: "n < 10 \<Longrightarrow> String_nat n = [digit_char n]"
  by (simp add: String_nat.simps)

lemma String_nat_two: "10 \<le> n \<Longrightarrow> n < 100 \<Longrightarrow> String_nat n = two_digits n"
proof -
  assume a: "10 \<le> n" and b: "n < 100"
  have "n div 10 < 10" using b by simp
  then have "String_nat (n div 10) = [digit_char (n div 10)]"
    by (rule String_nat_small)
  moreover have "String_nat n = String_nat (n div 10) @ [digit_char (n mod 10)]"
    using a by (subst String_nat.simps) simp
  ultimately show ?thesis by (simp add: two_digits_def)
qed

lemma digit_char_0: "digit_char 0 = CHR ''0''"
  by (simp add: digit_char_def)

lemma padStart_two: "n < 100 \<Longrightarrow> padStart 2 (CHR ''0'') (String_nat n) = two_digits n"
proof (cases "n < 10")
  case True
  then show ?thesis
    by (simp add: String_nat_small padStart_def two_digits_def digit_char_0)
next
  case False
  assume "n < 100"
  with False have "String_nat n = two_digits n" by (simp add: String_nat_two)
  then show ?thesis by (simp add: padStart_def two_digits_def)
qed

text \<open>
  C10. Any input less than or equal to zero yields \<open>0:00\<close>; a duration under one hour is
  rendered \<open>m:ss\<close> and one of an hour or more \<open>h:mm:ss\<close>, the minutes (in the second form)
  and the seconds being below 60 and written with exactly two digits.
\<close>

theorem formatDuration_clock:
  "(ms \<le> 0 \<longrightarrow> formatDuration ms = ''0:00'') \<and>
   (0 \<le> ms \<and> ms < 3600000 \<longrightarrow>
      formatDuration ms =
        String_nat (nat (ms div 1000) div 60) @ '':'' @ two_digits (nat (ms div 1000) mod 60)) \<and>
   (3600000 \<le> ms \<longrightarrow>
      formatDuration ms =
        String_nat (nat (ms div 1000) div 3600) @ '':''
          @ two_digits (nat (ms div 1000) mod 3600 div 60) @ '':''
          @ two_digits (nat (ms div 1000) mod 60)) \<and>
   nat (ms div 1000) mod 3600 div 60 < 60 \<and> nat (ms div 1000) mod 60 < 60"
proof (intro conjI impI)
  assume "ms \<le> 0"
  then have "ms div 1000 \<le> 0"
    by linarith
  then have "nat (max 0 (ms div 1000)) = 0" by simp
  then show "formatDuration ms = ''0:00''"
    by (simp add: formatDuration_def Let_def String_nat_small padStart_def digit_char_0)
next
  assume a: "0 \<le> ms \<and> ms < 3600000"
  define t where "t = nat (ms div 1000)"
  have t: "nat (max 0 (ms div 1000)) = t"
    using a by (simp add: t_def)
  have "ms div 1000 < 3600" using a by linarith
  then have lt: "t < 3600" using a by (simp add: t_def)
  then have "t div 3600 = 0" by simp
  moreover have "t mod 3600 = t" using lt by simp
  moreover have "t mod 60 < 100" by (simp add: less_trans [OF mod_less_divisor])
  ultimately show "formatDuration ms =
      String_nat (nat (ms div 1000) div 60) @ '':'' @ two_digits (nat (ms div 1000) mod 60)"
    unfolding formatDuration_def Let_def t t_def [symmetric]
    by (simp add: padStart_two)
next
  assume a: "3600000 \<le> ms"
  define t where "t = nat (ms div 1000)"
  have t: "nat (max 0 (ms div 1000)) = t"
    using a by (simp add: t_def)
  have "3600 \<le> ms div 1000" using a by linarith
  then have "3600 \<le> t" by (simp add: t_def)
  then have h: "0 < t div 3600" by (simp add: div_greater_zero_iff)
  have m: "t mod 3600 div 60 < 100"
    by (rule less_trans [of _ 60]) (simp_all add: div_less_iff_less_mult)
  have s: "t mod 60 < 100"
    by (rule less_trans [of _ 60]) simp_all
  show "formatDuration ms =
      String_nat (nat (ms div 1000) div 3600) @ '':''
        @ two_digits (nat (ms div 1000) mod 3600 div 60) @ '':''
        @ two_digits (nat (ms div 1000) mod 60)"
    unfolding formatDuration_def Let_def t t_def [symmetric]
    using h by (simp add: padStart_two [OF m] padStart_two [OF s])
next
  show "nat (ms div 1000) mod 3600 div 60 < 60"
    by (simp add: div_less_iff_less_mult)
next
  show "nat (ms div 1000) mod 60 < 60" by simp
qed

theorem formatDuration_clock_witness:
  "(-5::int) \<le> 0 \<and> formatDuration (-5) = ''0:00'' \<and>
   (0::int) \<le> 65000 \<and> (65000::int) < 3600000 \<and> formatDuration 65000 = ''1:05'' \<and>
   (3600000::int) \<le> 3725000 \<and> formatDuration 3725000 = ''1:02:05''"
  using formatDuration_clock [of "-5"] formatDuration_clock [of 65000]
    formatDuration_clock [of 3725000]
  by (simp add: String_nat_small two_digits_def digit_char_def)

section \<open>The scenarios, evaluated\<close>

lemmas flow_defs =
  handleStartCall_def offer_flow_def answer_flow_def onAnswer_def
  ensureLocalMedia_def setupPeerConnection_def addTrack_def open_pc_def getTracks_def update_pc_def
  setLocalDescription_def setRemoteDescription_def addIceCandidate_def sendCallEvent_def
  cleanupCall_def close_pc_def stop_stream_def set_srcObject_def
  swallow_def truthy_def or_null_def envelope_def new_pc_def
  on_call_def on_answer_def on_ice_def on_hangup_def
  String_int_def String_nat.simps digit_char_def Let_def

lemmas scen_defs =
  env_ok_def env_no_media_def bob_def me_def from_bob_def carol_call_def
  offer_sdp_def answer_sdp_def early_ice_def mic_def cam_def

lemma caller_active_value:
  "caller_active =
     \<lparr>callOpen = True, callState = Active,
      callContact = Some \<lparr>cc_name = Some ''Bob'', cc_username = Some ''bob'', cc_avatarUrl = None\<rparr>,
      callMuted = False, callSpeaker = False, callStartedAt = Some 2000,
      connectionStatus = Good, callPeerId = Some ''bob'', activeCallId = Some ''call_1000'',
      callSignalChannelRef =
        Some [(EvCall,
               \<lparr>p_callId = Some ''call_1000'', p_from = Some ''me'', p_to = Some ''bob'',
                p_fromName = Some ''Me'', p_fromUsername = Some ''me'', p_fromAvatarUrl = None,
                p_sdp = Some offer_sdp, p_candidate = None, p_ts = Some 1000\<rparr>)],
      callCameraOff = False,
      localVideoRef = Some \<lparr>srcObject = Some 0\<rparr>, remoteVideoRef = Some \<lparr>srcObject = None\<rparr>,
      pcRef = Some 0, localStreamRef = Some 0, remoteStreamRef = None,
      pendingRemoteSDPRef = None, isCallerRef = True,
      tracks = [mic, cam], streams = [[0, 1]],
      pcs = [\<lparr>senders = [0, 1], receivers = [], localDescription = Some offer_sdp,
              remoteDescription = Some answer_sdp, iceCandidates = [], pc_closed = False\<rparr>]\<rparr>"
  by (simp add: caller_active_def initial_page_def flow_defs scen_defs)

lemma callee_incoming_value:
  "callee_incoming =
     initial_page\<lparr>callOpen := True, callState := Incoming,
       callContact := Some \<lparr>cc_name = None, cc_username = None, cc_avatarUrl = None\<rparr>,
       callPeerId := Some ''bob'', activeCallId := Some ''c1'',
       pendingRemoteSDPRef := Some offer_sdp\<rparr>"
  by (simp add: callee_incoming_def initial_page_def flow_defs scen_defs)

lemma caller_outgoing_value:
  "caller_outgoing =
     \<lparr>callOpen = True, callState = Outgoing,
      callContact = Some \<lparr>cc_name = Some ''Bob'', cc_username = Some ''bob'', cc_avatarUrl = None\<rparr>,
      callMuted = False, callSpeaker = False, callStartedAt = None,
      connectionStatus = Connecting, callPeerId = Some ''bob'', activeCallId = Some ''call_1000'',
      callSignalChannelRef =
        Some [(EvCall,
               \<lparr>p_callId = Some ''call_1000'', p_from = Some ''me'', p_to = Some ''bob'',
                p_fromName = Some ''Me'', p_fromUsername = Some ''me'', p_fromAvatarUrl = None,
                p_sdp = Some offer_sdp, p_candidate = None, p_ts = Some 1000\<rparr>)],
      callCameraOff = False,
      localVideoRef = Some \<lparr>srcObject = Some 0\<rparr>, remoteVideoRef = Some \<lparr>srcObject = None\<rparr>,
      pcRef = Some 0, localStreamRef = Some 0, remoteStreamRef = None,
      pendingRemoteSDPRef = None, isCallerRef = True,
      tracks = [mic, cam], streams = [[0, 1]],
      pcs = [\<lparr>senders = [0, 1], receivers = [], localDescription = Some offer_sdp,
              remoteDescription = None, iceCandidates = [], pc_closed = False\<rparr>]\<rparr>"
  by (simp add: caller_outgoing_def initial_page_def flow_defs scen_defs)

section \<open>Teardown\<close>

lemma set_srcObject_twice: "set_srcObject None (set_srcObject None v) = set_srcObject None v"
  by (cases v) (simp_all add: set_srcObject_def)

lemma cleanupCall_refs:
  "pcRef (cleanupCall s) = None"
  "localStreamRef (cleanupCall s) = None"
  "remoteStreamRef (cleanupCall s) = None"
  "localVideoRef (cleanupCall s) = set_srcObject None (localVideoRef s)"
  "remoteVideoRef (cleanupCall s) = set_srcObject None (remoteVideoRef s)"
  by (simp_all add: cleanupCall_def Let_def stop_stream_def close_pc_def update_pc_def
      split: option.splits)

text \<open>Once every reference is cleared, teardown finds nothing to do.\<close>

lemma cleanupCall_released:
  assumes "pcRef s = None" and "localStreamRef s = None" and "remoteStreamRef s = None"
    and "set_srcObject None (localVideoRef s) = localVideoRef s"
    and "set_srcObject None (remoteVideoRef s) = remoteVideoRef s"
  shows "cleanupCall s = s"
  using assms by (simp add: cleanupCall_def Let_def stop_stream_def close_pc_def)

lemma cleanupCall_twice: "cleanupCall (cleanupCall s) = cleanupCall s"
  by (rule cleanupCall_released) (simp_all add: cleanupCall_refs set_srcObject_twice)

lemma cleanupCall_iterated: "(cleanupCall ^^ Suc n) s = cleanupCall s"
proof (induction n)
  case 0
  show ?case by simp
next
  case (Suc n)
  have "(cleanupCall ^^ Suc (Suc n)) s = cleanupCall ((cleanupCall ^^ Suc n) s)" by simp
  also have "\<dots> = cleanupCall (cleanupCall s)" by (simp only: Suc.IH)
  also have "\<dots> = cleanupCall s" by (rule cleanupCall_twice)
  finally show ?case .
qed

text \<open>Stopping the tracks named by a list: which tracks change, and how.\<close>

lemma stop_tracks_length: "length (stop_tracks ids ts) = length ts"
  by (induction ids arbitrary: ts) simp_all

lemma stop_tracks_nth:
  "t < length ts \<Longrightarrow>
   stop_tracks ids ts ! t = (if t \<in> set ids then (ts ! t)\<lparr>stopped := True\<rparr> else ts ! t)"
proof (induction ids arbitrary: ts)
  case Nil
  then show ?case by simp
next
  case (Cons i rest)
  then show ?case by (auto simp: nth_list_update)
qed

lemma stop_tracks_append: "stop_tracks (xs @ ys) ts = stop_tracks ys (stop_tracks xs ts)"
  by (induction xs arbitrary: ts) simp_all


lemma cleanupCall_tracks: "tracks (cleanupCall s) = stop_tracks (held_tracks s) (tracks s)"
  by (simp add: cleanupCall_def Let_def stop_stream_def close_pc_def update_pc_def
      held_tracks_def getTracks_def stop_tracks_append split: option.splits)

lemma cleanupCall_pcs:
  "pcs (cleanupCall s) =
     (case pcRef s of
        None \<Rightarrow> pcs s
      | Some i \<Rightarrow> (pcs s)[i := (pcs s ! i)\<lparr>pc_closed := True\<rparr>])"
  by (auto simp: cleanupCall_def Let_def stop_stream_def close_pc_def update_pc_def
      list_update_beyond split: option.splits)

lemma cleanupCall_frame:
  "cleanupCall s =
     s\<lparr>pcRef := None, localStreamRef := None, remoteStreamRef := None,
       localVideoRef := set_srcObject None (localVideoRef s),
       remoteVideoRef := set_srcObject None (remoteVideoRef s),
       tracks := tracks (cleanupCall s), pcs := pcs (cleanupCall s)\<rparr>"
  by (simp add: cleanupCall_def Let_def stop_stream_def close_pc_def update_pc_def
      split: option.splits)

text \<open>
  C5, as stated, fails in one point: teardown does not clear every reference. The callee
  holds bob's offer in \<open>pendingRemoteSDPRef\<close>; after \<open>cleanupCall\<close>, called directly, twice, or
  by the handler of bob's \<open>cancel\<close>, the reference still holds the offer.
\<close>

theorem teardown_keeps_pending_offer:
  "pendingRemoteSDPRef callee_incoming = Some offer_sdp \<and>
   pendingRemoteSDPRef (cleanupCall callee_incoming) = Some offer_sdp \<and>
   pendingRemoteSDPRef ((cleanupCall ^^ 2) callee_incoming) = Some offer_sdp \<and>
   pendingRemoteSDPRef (on_broadcast ''me'' (env_ok 2000) EvCancel (Some (from_bob ''c1'')) callee_incoming)
     = Some offer_sdp"
proof -
  have fr: "\<And>s. pendingRemoteSDPRef (cleanupCall s) = pendingRemoteSDPRef s"
    by (subst cleanupCall_frame) simp
  have a: "pendingRemoteSDPRef callee_incoming = Some offer_sdp"
    by (simp add: callee_incoming_value)
  have b: "(cleanupCall ^^ 2) callee_incoming = cleanupCall (cleanupCall callee_incoming)"
    by (simp add: numeral_2_eq_2)
  have c: "p_to (from_bob ''c1'') = Some ''me''" by (simp add: from_bob_def)
  show ?thesis using a b c by (simp add: fr on_cancel_def)
qed

text \<open>
  C5, amended. Teardown is idempotent: from every state, also one in which nothing was ever
  set up, \<open>n + 1\<close> calls of \<open>cleanupCall\<close> leave the whole state as one call does, and
  \<open>cleanupCall\<close> has no throwing outcome. One call changes the references to the connection
  and to the two streams and the sources of the video elements, which it clears, the track
  store and the connection store, and nothing else; in particular the offer held in
  \<open>pendingRemoteSDPRef\<close> stays. In the track store exactly the tracks of the senders and
  receivers of the referenced connection and of the local and remote streams change, and
  they are stopped; in the connection store the referenced connection is closed.
\<close>

theorem cleanupCall_idempotent:
  "(cleanupCall ^^ Suc n) s = cleanupCall s \<and>
   cleanupCall s =
     s\<lparr>pcRef := None, localStreamRef := None, remoteStreamRef := None,
       localVideoRef := set_srcObject None (localVideoRef s),
       remoteVideoRef := set_srcObject None (remoteVideoRef s),
       tracks := tracks (cleanupCall s), pcs := pcs (cleanupCall s)\<rparr> \<and>
   pendingRemoteSDPRef (cleanupCall s) = pendingRemoteSDPRef s \<and>
   length (tracks (cleanupCall s)) = length (tracks s) \<and>
   (\<forall>t < length (tracks s).
      tracks (cleanupCall s) ! t =
        (if t \<in> set (held_tracks s) then (tracks s ! t)\<lparr>stopped := True\<rparr> else tracks s ! t)) \<and>
   pcs (cleanupCall s) =
     (case pcRef s of
        None \<Rightarrow> pcs s
      | Some i \<Rightarrow> (pcs s)[i := (pcs s ! i)\<lparr>pc_closed := True\<rparr>])"
proof (intro conjI)
  show "(cleanupCall ^^ Suc n) s = cleanupCall s" by (rule cleanupCall_iterated)
  show "cleanupCall s =
     s\<lparr>pcRef := None, localStreamRef := None, remoteStreamRef := None,
       localVideoRef := set_srcObject None (localVideoRef s),
       remoteVideoRef := set_srcObject None (remoteVideoRef s),
       tracks := tracks (cleanupCall s), pcs := pcs (cleanupCall s)\<rparr>"
    by (rule cleanupCall_frame)
  show "pendingRemoteSDPRef (cleanupCall s) = pendingRemoteSDPRef s"
    by (subst cleanupCall_frame) simp
  show "length (tracks (cleanupCall s)) = length (tracks s)"
    by (simp add: cleanupCall_tracks stop_tracks_length)
  show "\<forall>t < length (tracks s).
      tracks (cleanupCall s) ! t =
        (if t \<in> set (held_tracks s) then (tracks s ! t)\<lparr>stopped := True\<rparr> else tracks s ! t)"
    by (simp add: cleanupCall_tracks stop_tracks_nth)
  show "pcs (cleanupCall s) =
     (case pcRef s of
        None \<Rightarrow> pcs s
      | Some i \<Rightarrow> (pcs s)[i := (pcs s ! i)\<lparr>pc_closed := True\<rparr>])"
    by (rule cleanupCall_pcs)
qed

theorem cleanupCall_idempotent_witness:
  "(cleanupCall ^^ 3) caller_active = cleanupCall caller_active \<and>
   (cleanupCall ^^ 2) initial_page = cleanupCall initial_page \<and>
   pcRef (cleanupCall caller_active) = None \<and>
   localStreamRef (cleanupCall caller_active) = None \<and>
   (0::nat) < length (tracks caller_active) \<and> 0 \<in> set (held_tracks caller_active) \<and>
   (1::nat) < length (tracks caller_active) \<and> 1 \<in> set (held_tracks caller_active) \<and>
   tracks (cleanupCall caller_active) ! 0 = mic\<lparr>stopped := True\<rparr> \<and>
   tracks (cleanupCall caller_active) ! 1 = cam\<lparr>stopped := True\<rparr> \<and>
   pc_closed (pcs (cleanupCall caller_active) ! 0)"
proof -
  note th = cleanupCall_idempotent [where s = caller_active and n = 2]
  note th0 = cleanupCall_idempotent [where s = initial_page and n = 1]
  have len: "length (tracks caller_active) = 2" by (simp add: caller_active_value)
  have held: "held_tracks caller_active = [0, 1, 0, 1]"
    by (simp add: caller_active_value held_tracks_def getTracks_def)
  have t0: "tracks caller_active ! 0 = mic" by (simp add: caller_active_value)
  have t1: "tracks caller_active ! 1 = cam" by (simp add: caller_active_value)
  have pc: "pcRef caller_active = Some 0" by (simp add: caller_active_value)
  have npc: "length (pcs caller_active) = 1" by (simp add: caller_active_value)
  from th have 1: "(cleanupCall ^^ 3) caller_active = cleanupCall caller_active"
    by (simp add: numeral_3_eq_3)
  from th0 have 2: "(cleanupCall ^^ 2) initial_page = cleanupCall initial_page"
    by (simp add: numeral_2_eq_2)
  from th have fr: "cleanupCall caller_active =
     caller_active\<lparr>pcRef := None, localStreamRef := None, remoteStreamRef := None,
       localVideoRef := set_srcObject None (localVideoRef caller_active),
       remoteVideoRef := set_srcObject None (remoteVideoRef caller_active),
       tracks := tracks (cleanupCall caller_active), pcs := pcs (cleanupCall caller_active)\<rparr>"
    by blast
  have 3: "pcRef (cleanupCall caller_active) = None" by (subst fr) simp
  have 4: "localStreamRef (cleanupCall caller_active) = None" by (subst fr) simp
  from th have nth: "\<forall>t < length (tracks caller_active).
      tracks (cleanupCall caller_active) ! t =
        (if t \<in> set (held_tracks caller_active) then (tracks caller_active ! t)\<lparr>stopped := True\<rparr>
         else tracks caller_active ! t)"
    by blast
  have 5: "tracks (cleanupCall caller_active) ! 0 = mic\<lparr>stopped := True\<rparr>"
    using nth len held t0 by simp
  have 6: "tracks (cleanupCall caller_active) ! 1 = cam\<lparr>stopped := True\<rparr>"
    using nth len held t1 by simp
  from th have "pcs (cleanupCall caller_active) =
     (case pcRef caller_active of
        None \<Rightarrow> pcs caller_active
      | Some i \<Rightarrow> (pcs caller_active)[i := (pcs caller_active ! i)\<lparr>pc_closed := True\<rparr>])"
    by blast
  then have 7: "pc_closed (pcs (cleanupCall caller_active) ! 0)"
    using pc npc by simp
  from 1 2 3 4 5 6 7 len held show ?thesis by simp
qed


section \<open>Events addressed to another party\<close>

lemma on_broadcast_foreign:
  "foreign myId (Broadcast e k pl) \<Longrightarrow> on_broadcast myId e k pl s = s"
  by (cases k; cases pl)
    (simp_all add: on_call_def on_answer_def on_ice_def on_decline_def on_hangup_def on_cancel_def)

lemma step_foreign:
  assumes "foreign myId a"
  shows "step myId a s = s"
proof (cases a)
  case (Broadcast e k pl)
  with assms have "on_broadcast myId e k pl s = s"
    by (simp only: on_broadcast_foreign)
  with Broadcast show ?thesis by simp
qed (use assms in simp_all)

lemma run_drop_foreign:
  "run myId (filter (\<lambda>a. \<not> foreign myId a) xs) s = run myId xs s"
  by (induction xs arbitrary: s) (simp_all add: step_foreign)

text \<open>
  C7. A broadcast event of any kind whose \<open>to\<close> field is not the local party's id (or that
  has no payload at all) leaves the whole state as it is; hence two runs that differ in
  such events only, wherever they occur among the other actions, end in the same state.
\<close>

theorem foreign_noninterference:
  "(foreign myId a \<longrightarrow> step myId a s = s) \<and>
   (filter (\<lambda>a. \<not> foreign myId a) xs = filter (\<lambda>a. \<not> foreign myId a) ys \<longrightarrow>
      run myId xs s = run myId ys s)"
proof (intro conjI impI)
  assume "foreign myId a"
  then show "step myId a s = s" by (rule step_foreign)
next
  assume eq: "filter (\<lambda>a. \<not> foreign myId a) xs = filter (\<lambda>a. \<not> foreign myId a) ys"
  have "run myId xs s = run myId (filter (\<lambda>a. \<not> foreign myId a) xs) s"
    by (simp only: run_drop_foreign)
  also have "\<dots> = run myId (filter (\<lambda>a. \<not> foreign myId a) ys) s"
    by (simp only: eq)
  also have "\<dots> = run myId ys s" by (simp only: run_drop_foreign)
  finally show "run myId xs s = run myId ys s" .
qed

theorem foreign_noninterference_witness:
  "foreign ''me'' foreign_hangup \<and>
   step ''me'' foreign_hangup caller_active = caller_active \<and>
   filter (\<lambda>a. \<not> foreign ''me'' a) [MuteToggle True, foreign_hangup, SpeakerToggle True] =
   filter (\<lambda>a. \<not> foreign ''me'' a) [foreign_hangup, MuteToggle True, SpeakerToggle True] \<and>
   run ''me'' [MuteToggle True, foreign_hangup, SpeakerToggle True] caller_active =
   run ''me'' [foreign_hangup, MuteToggle True, SpeakerToggle True] caller_active"
proof -
  have f: "foreign ''me'' foreign_hangup"
    by (simp add: foreign_hangup_def from_bob_def)
  have eq: "filter (\<lambda>a. \<not> foreign ''me'' a) [MuteToggle True, foreign_hangup, SpeakerToggle True] =
      filter (\<lambda>a. \<not> foreign ''me'' a) [foreign_hangup, MuteToggle True, SpeakerToggle True]"
    using f by simp
  from foreign_noninterference [of "''me''" foreign_hangup caller_active
      "[MuteToggle True, foreign_hangup, SpeakerToggle True]"
      "[foreign_hangup, MuteToggle True, SpeakerToggle True]"] f eq
  show ?thesis by blast
qed

section \<open>Connection quality\<close>

text \<open>
  C8. The connectivity callback sets the connection status to \<open>Good\<close> on \<open>connected\<close>, to
  \<open>Connecting\<close> on \<open>connecting\<close> and to \<open>Disconnected\<close> on \<open>disconnected\<close> and on \<open>failed\<close>;
  on the two remaining raw states it does nothing. It changes no other cell, and a status it
  sets is never \<open>Fair\<close> or \<open>Poor\<close>.
\<close>

theorem onconnectionstatechange_mapping:
  "connectionStatus (onconnectionstatechange PcConnected s) = Good \<and>
   connectionStatus (onconnectionstatechange PcConnecting s) = Connecting \<and>
   connectionStatus (onconnectionstatechange PcDisconnected s) = Disconnected \<and>
   connectionStatus (onconnectionstatechange PcFailed s) = Disconnected \<and>
   onconnectionstatechange PcNew s = s \<and>
   onconnectionstatechange PcClosed s = s \<and>
   (onconnectionstatechange st s = s \<or>
    connectionStatus (onconnectionstatechange st s) \<in> {Good, Connecting, Disconnected}) \<and>
   onconnectionstatechange st s =
     s\<lparr>connectionStatus := connectionStatus (onconnectionstatechange st s)\<rparr>"
  by (cases st) (simp_all add: onconnectionstatechange_def)

section \<open>Mute\<close>

lemma set_enabled_length: "length (set_enabled b ids ts) = length ts"
  by (induction ids arbitrary: ts) simp_all

lemma set_enabled_nth:
  "t < length ts \<Longrightarrow>
   set_enabled b ids ts ! t = (if t \<in> set ids then (ts ! t)\<lparr>enabled := b\<rparr> else ts ! t)"
proof (induction ids arbitrary: ts)
  case Nil
  then show ?case by simp
next
  case (Cons i rest)
  then show ?case by (auto simp: nth_list_update)
qed

lemma getAudioTracks_kind: "t \<in> set (getAudioTracks s sid) \<Longrightarrow> kind (tracks s ! t) = Audio"
  by (simp add: getAudioTracks_def has_kind_def)

text \<open>
  C9. Toggling mute is local: \<open>onMuteToggle m\<close> changes the \<open>callMuted\<close> flag and the track
  store and nothing else, so nothing is sent on the signaling channel and the lifecycle
  state and the connections (their descriptions included) stay as they are. In the track
  store exactly the audio tracks of the local stream change, and only in their \<open>enabled\<close>
  flag, which becomes \<open>\<not> m\<close>; every video track is unchanged.
\<close>

theorem onMuteToggle_local:
  "onMuteToggle m s = s\<lparr>callMuted := m, tracks := tracks (onMuteToggle m s)\<rparr> \<and>
   callSignalChannelRef (onMuteToggle m s) = callSignalChannelRef s \<and>
   callState (onMuteToggle m s) = callState s \<and>
   pcs (onMuteToggle m s) = pcs s \<and>
   length (tracks (onMuteToggle m s)) = length (tracks s) \<and>
   (\<forall>t < length (tracks s).
      tracks (onMuteToggle m s) ! t =
        (if \<exists>sid. localStreamRef s = Some sid \<and> t \<in> set (getAudioTracks s sid)
         then (tracks s ! t)\<lparr>enabled := \<not> m\<rparr> else tracks s ! t)) \<and>
   (\<forall>t < length (tracks s).
      kind (tracks s ! t) = Video \<longrightarrow> tracks (onMuteToggle m s) ! t = tracks s ! t)"
proof (cases "localStreamRef s")
  case None
  then show ?thesis by (simp add: onMuteToggle_def)
next
  case (Some sid)
  have nth: "\<forall>t < length (tracks s).
      tracks (onMuteToggle m s) ! t =
        (if t \<in> set (getAudioTracks s sid) then (tracks s ! t)\<lparr>enabled := \<not> m\<rparr> else tracks s ! t)"
    using Some by (simp add: onMuteToggle_def set_enabled_nth)
  have video: "\<forall>t < length (tracks s).
      kind (tracks s ! t) = Video \<longrightarrow> tracks (onMuteToggle m s) ! t = tracks s ! t"
    using nth getAudioTracks_kind [of _ s sid] by auto
  show ?thesis
    using Some nth video by (simp add: onMuteToggle_def set_enabled_length)
qed

theorem onMuteToggle_local_witness:
  "callSignalChannelRef (onMuteToggle True caller_active) = callSignalChannelRef caller_active \<and>
   pcs (onMuteToggle True caller_active) = pcs caller_active \<and>
   tracks (onMuteToggle True caller_active) ! 0 = mic\<lparr>enabled := False\<rparr> \<and>
   tracks (onMuteToggle True caller_active) ! 1 = cam"
proof -
  have len: "length (tracks caller_active) = 2" by (simp add: caller_active_value)
  have a: "\<exists>sid. localStreamRef caller_active = Some sid \<and> 0 \<in> set (getAudioTracks caller_active sid)"
  proof (intro exI conjI)
    show "localStreamRef caller_active = Some 0" by (simp add: caller_active_value)
    show "0 \<in> set (getAudioTracks caller_active 0)"
      by (simp add: caller_active_value getAudioTracks_def getTracks_def has_kind_def mic_def cam_def)
  qed
  have t0: "tracks caller_active ! 0 = mic" by (simp add: caller_active_value)
  have t1: "tracks caller_active ! 1 = cam" by (simp add: caller_active_value)
  have k: "kind cam = Video" by (simp add: cam_def)
  note th = onMuteToggle_local [of True caller_active]
  from th have audio: "\<forall>t < length (tracks caller_active).
      tracks (onMuteToggle True caller_active) ! t =
        (if \<exists>sid. localStreamRef caller_active = Some sid \<and> t \<in> set (getAudioTracks caller_active sid)
         then (tracks caller_active ! t)\<lparr>enabled := \<not> True\<rparr> else tracks caller_active ! t)"
    by blast
  from th have video: "\<forall>t < length (tracks caller_active).
      kind (tracks caller_active ! t) = Video \<longrightarrow>
      tracks (onMuteToggle True caller_active) ! t = tracks caller_active ! t"
    by blast
  have r0: "tracks (onMuteToggle True caller_active) ! 0 = mic\<lparr>enabled := False\<rparr>"
    using audio len a t0 by simp
  have "kind (tracks caller_active ! 1) = Video" using t1 k by simp
  with video len have r1: "tracks (onMuteToggle True caller_active) ! 1 = cam"
    using t1 by simp
  from th r0 r1 show ?thesis by simp
qed

section \<open>The call identifier of inbound events\<close>

text \<open>
  C1, as stated, fails: the handlers filter on \<open>to\<close> alone. Here the caller is in the active
  call \<open>call_1000\<close> and receives a hang-up addressed to it that carries another call's
  identifier; the session is closed all the same.
\<close>

theorem stale_hangup_counterexample:
  "p_to (from_bob ''stale'') = Some ''me'' \<and>
   p_callId (from_bob ''stale'') \<noteq> activeCallId caller_active \<and>
   callOpen caller_active \<and>
   \<not> callOpen (on_broadcast ''me'' (env_ok 3000) EvHangup (Some (from_bob ''stale'')) caller_active) \<and>
   on_broadcast ''me'' (env_ok 3000) EvHangup (Some (from_bob ''stale'')) caller_active
     \<noteq> caller_active"
proof -
  have a: "p_to (from_bob ''stale'') = Some ''me''" by (simp add: from_bob_def)
  have b: "p_callId (from_bob ''stale'') \<noteq> activeCallId caller_active"
    by (simp add: caller_active_value from_bob_def)
  have c: "callOpen caller_active" by (simp add: caller_active_value)
  have d: "\<not> callOpen (on_broadcast ''me'' (env_ok 3000) EvHangup (Some (from_bob ''stale'')) caller_active)"
    by (simp add: on_hangup_def a)
  from c d have "on_broadcast ''me'' (env_ok 3000) EvHangup (Some (from_bob ''stale'')) caller_active
     \<noteq> caller_active" by auto
  with a b c d show ?thesis by blast
qed

text \<open>
  C1, amended. No handler compares \<open>callId\<close>. An \<open>answer\<close>, \<open>ice\<close>, \<open>decline\<close>, \<open>hangup\<close> or
  \<open>cancel\<close> event has the same effect whatever call identifier it carries; a \<open>call\<close> event
  addressed to the local party sets the session's call identifier and peer to the event's
  and the lifecycle state to \<open>Incoming\<close>; an event of any kind addressed to another party
  changes nothing.
\<close>

theorem callId_not_compared:
  "(k \<noteq> EvCall \<longrightarrow>
      on_broadcast myId e k (Some (p\<lparr>p_callId := c\<rparr>)) s = on_broadcast myId e k (Some p) s) \<and>
   (p_to p = Some myId \<longrightarrow>
      activeCallId (on_broadcast myId e EvCall (Some p) s) = or_null (p_callId p) \<and>
      callPeerId (on_broadcast myId e EvCall (Some p) s) = p_from p \<and>
      callState (on_broadcast myId e EvCall (Some p) s) = Incoming \<and>
      callOpen (on_broadcast myId e EvCall (Some p) s)) \<and>
   (p_to p \<noteq> Some myId \<longrightarrow> on_broadcast myId e k (Some p) s = s)"
proof (intro conjI impI)
  assume "k \<noteq> EvCall"
  then show "on_broadcast myId e k (Some (p\<lparr>p_callId := c\<rparr>)) s = on_broadcast myId e k (Some p) s"
    by (cases k) (simp_all add: on_answer_def on_ice_def on_decline_def on_hangup_def on_cancel_def)
next
  assume "p_to p \<noteq> Some myId"
  then show "on_broadcast myId e k (Some p) s = s"
    by (cases k)
      (simp_all add: on_call_def on_answer_def on_ice_def on_decline_def on_hangup_def on_cancel_def)
qed (simp_all add: on_call_def)

theorem callId_not_compared_witness:
  "EvHangup \<noteq> EvCall \<and>
   on_broadcast ''me'' (env_ok 3000) EvHangup (Some (from_bob ''stale'')) caller_active =
   on_broadcast ''me'' (env_ok 3000) EvHangup (Some (from_bob ''call_1000'')) caller_active \<and>
   p_to carol_call = Some ''me'' \<and>
   activeCallId (on_broadcast ''me'' (env_ok 3000) EvCall (Some carol_call) initial_page) = Some ''c2'' \<and>
   p_to ((from_bob ''c1'')\<lparr>p_to := Some ''carol''\<rparr>) \<noteq> Some ''me'' \<and>
   on_broadcast ''me'' (env_ok 3000) EvIce (Some ((from_bob ''c1'')\<lparr>p_to := Some ''carol''\<rparr>)) caller_active
     = caller_active"
proof -
  have eq: "(from_bob ''call_1000'')\<lparr>p_callId := Some ''stale''\<rparr> = from_bob ''stale''"
    by (simp add: from_bob_def)
  have to: "p_to carol_call = Some ''me''" by (simp add: carol_call_def)
  have cid: "or_null (p_callId carol_call) = Some ''c2''"
    by (simp add: carol_call_def or_null_def truthy_def)
  have nto: "p_to ((from_bob ''c1'')\<lparr>p_to := Some ''carol''\<rparr>) \<noteq> Some ''me''" by simp
  from callId_not_compared [where k = EvHangup and myId = "''me''" and e = "env_ok 3000"
      and p = "from_bob ''call_1000''" and c = "Some ''stale''" and s = caller_active]
  have 1: "on_broadcast ''me'' (env_ok 3000) EvHangup (Some (from_bob ''stale'')) caller_active =
   on_broadcast ''me'' (env_ok 3000) EvHangup (Some (from_bob ''call_1000'')) caller_active"
    by (simp add: eq)
  from callId_not_compared [where k = EvCall and myId = "''me''" and e = "env_ok 3000"
      and p = carol_call and c = None and s = initial_page] to cid
  have 2: "activeCallId (on_broadcast ''me'' (env_ok 3000) EvCall (Some carol_call) initial_page) = Some ''c2''"
    by simp
  from callId_not_compared [where k = EvIce and myId = "''me''" and e = "env_ok 3000"
      and p = "(from_bob ''c1'')\<lparr>p_to := Some ''carol''\<rparr>" and c = None and s = caller_active] nto
  have 3: "on_broadcast ''me'' (env_ok 3000) EvIce (Some ((from_bob ''c1'')\<lparr>p_to := Some ''carol''\<rparr>)) caller_active
     = caller_active" by blast
  from 1 2 3 to nto show ?thesis by simp
qed

section \<open>Candidates that arrive early\<close>

text \<open>
  C2, as stated, fails: there is no buffer. The callee has bob's offer and has not answered
  yet, so no connection exists; a candidate for the same call arrives and the handler
  returns with the state as it was. When the callee then answers, the offer is applied as
  the remote description and the connection has received no candidate.
\<close>

theorem early_ice_counterexample:
  "pcRef callee_incoming = None \<and>
   step ''me'' early_ice callee_incoming = callee_incoming \<and>
   remoteDescription (pcs (run ''me'' [early_ice, Answer (env_ok 3000) (Some me)] callee_incoming) ! 0)
     = Some offer_sdp \<and>
   iceCandidates (pcs (run ''me'' [early_ice, Answer (env_ok 3000) (Some me)] callee_incoming) ! 0)
     = []"
  by (simp add: callee_incoming_value initial_page_def flow_defs scen_defs)

lemma on_ice_no_description:
  assumes "pcRef s = Some i" and "i < length (pcs s)" and "remoteDescription (pcs s ! i) = None"
  shows "on_ice myId e pl s = s"
  using assms
  by (cases pl) (simp_all add: on_ice_def addIceCandidate_def swallow_def split: option.splits)

lemma on_ice_refused: "\<not> addIceCandidate_ok e \<Longrightarrow> on_ice myId e pl s = s"
  by (cases pl) (simp_all add: on_ice_def addIceCandidate_def swallow_def split: option.splits)

lemma on_ice_applies:
  assumes "pcRef s = Some i" and "i < length (pcs s)"
    and "remoteDescription (pcs s ! i) \<noteq> None" and "\<not> pc_closed (pcs s ! i)"
    and "p_to p = Some myId" and "addIceCandidate_ok e"
  shows "on_ice myId e (Some (p\<lparr>p_candidate := Some c\<rparr>)) s =
     s\<lparr>pcs := (pcs s)[i := (pcs s ! i)\<lparr>iceCandidates := iceCandidates (pcs s ! i) @ [c]\<rparr>]\<rparr>"
  using assms
  by (simp add: on_ice_def addIceCandidate_def open_pc_def swallow_def update_pc_def)

lemma ice_events_applied:
  assumes "pcRef s = Some i" and "i < length (pcs s)"
    and "remoteDescription (pcs s ! i) \<noteq> None" and "\<not> pc_closed (pcs s ! i)"
    and "p_to p = Some myId" and "addIceCandidate_ok e"
  shows "run myId (ice_events e p cs) s =
     s\<lparr>pcs := (pcs s)[i := (pcs s ! i)\<lparr>iceCandidates := iceCandidates (pcs s ! i) @ cs\<rparr>]\<rparr>"
  using assms
proof (induction cs arbitrary: s)
  case Nil
  then show ?case by (simp add: ice_events_def)
next
  case (Cons c cs)
  let ?s1 = "s\<lparr>pcs := (pcs s)[i := (pcs s ! i)\<lparr>iceCandidates := iceCandidates (pcs s ! i) @ [c]\<rparr>]\<rparr>"
  have st: "step myId (Broadcast e EvIce (Some (p\<lparr>p_candidate := Some c\<rparr>))) s = ?s1"
    using Cons.prems by (simp add: on_ice_applies)
  have "run myId (ice_events e p (c # cs)) s = run myId (ice_events e p cs) ?s1"
    using st by (simp add: ice_events_def)
  also have "\<dots> = ?s1\<lparr>pcs := (pcs ?s1)[i := (pcs ?s1 ! i)\<lparr>iceCandidates := iceCandidates (pcs ?s1 ! i) @ cs\<rparr>]\<rparr>"
    using Cons.prems by (intro Cons.IH) simp_all
  also have "\<dots> = s\<lparr>pcs := (pcs s)[i := (pcs s ! i)\<lparr>iceCandidates := iceCandidates (pcs s ! i) @ c # cs\<rparr>]\<rparr>"
    using Cons.prems by simp
  finally show ?case .
qed

text \<open>Applying an answer gives the connection no candidate.\<close>

lemma update_pc_iceCandidates:
  "(\<And>pc. iceCandidates (f pc) = iceCandidates pc) \<Longrightarrow>
   map iceCandidates (pcs (update_pc i f s)) = map iceCandidates (pcs s)"
  by (simp add: update_pc_def map_update list_update_same_conv)

lemma on_answer_iceCandidates:
  "map iceCandidates (pcs (on_answer myId e pl s)) = map iceCandidates (pcs s)"
  by (simp add: on_answer_def setRemoteDescription_def update_pc_iceCandidates
      split: option.splits)

text \<open>
  C2, amended. There is no buffer. An \<open>ice\<close> event that arrives while no connection exists,
  or while the connection has no remote description yet (the connection rejects the
  candidate and the handler swallows the error), leaves the state as it was, and so does
  one the connection refuses for any other reason; the \<open>answer\<close> handler, which applies the
  remote description on the caller's side, gives the connection no candidate, so a
  candidate that came early is lost. Once a remote description has been applied, the
  candidates of the \<open>ice\<close> events addressed to the local party are handed to the open
  connection at once: after a run of such events that the connection accepts, its
  candidates are those it had followed by the new ones in arrival order, each once, and
  nothing else has changed.
\<close>

theorem ice_applied_at_once_or_dropped:
  "(pcRef s = None \<longrightarrow> on_ice myId e pl s = s) \<and>
   (pcRef s = Some i \<and> i < length (pcs s) \<and> remoteDescription (pcs s ! i) = None \<longrightarrow>
      on_ice myId e pl s = s) \<and>
   (\<not> addIceCandidate_ok e \<longrightarrow> on_ice myId e pl s = s) \<and>
   map iceCandidates (pcs (on_answer myId e pl s)) = map iceCandidates (pcs s) \<and>
   (pcRef s = Some i \<and> i < length (pcs s) \<and> remoteDescription (pcs s ! i) \<noteq> None \<and>
    \<not> pc_closed (pcs s ! i) \<and> p_to p = Some myId \<and> addIceCandidate_ok e \<longrightarrow>
      run myId (ice_events e p cs) s =
        s\<lparr>pcs := (pcs s)[i := (pcs s ! i)\<lparr>iceCandidates := iceCandidates (pcs s ! i) @ cs\<rparr>]\<rparr>)"
proof (intro conjI impI)
  assume "pcRef s = None"
  then show "on_ice myId e pl s = s"
    by (cases pl) (simp_all add: on_ice_def)
next
  assume "pcRef s = Some i \<and> i < length (pcs s) \<and> remoteDescription (pcs s ! i) = None"
  then show "on_ice myId e pl s = s" by (simp add: on_ice_no_description)
next
  assume "\<not> addIceCandidate_ok e"
  then show "on_ice myId e pl s = s" by (rule on_ice_refused)
next
  show "map iceCandidates (pcs (on_answer myId e pl s)) = map iceCandidates (pcs s)"
    by (rule on_answer_iceCandidates)
next
  assume "pcRef s = Some i \<and> i < length (pcs s) \<and> remoteDescription (pcs s ! i) \<noteq> None \<and>
    \<not> pc_closed (pcs s ! i) \<and> p_to p = Some myId \<and> addIceCandidate_ok e"
  then show "run myId (ice_events e p cs) s =
        s\<lparr>pcs := (pcs s)[i := (pcs s ! i)\<lparr>iceCandidates := iceCandidates (pcs s ! i) @ cs\<rparr>]\<rparr>"
    by (simp add: ice_events_applied)
qed

theorem ice_applied_at_once_or_dropped_witness:
  "pcRef callee_incoming = None \<and>
   on_ice ''me'' (env_ok 1500) (Some ((from_bob ''c1'')\<lparr>p_candidate := Some ''k1''\<rparr>)) callee_incoming
     = callee_incoming \<and>
   pcRef caller_outgoing = Some 0 \<and> 0 < length (pcs caller_outgoing) \<and>
   remoteDescription (pcs caller_outgoing ! 0) = None \<and>
   on_ice ''me'' (env_ok 1500) (Some ((from_bob ''call_1000'')\<lparr>p_candidate := Some ''k1''\<rparr>))
     caller_outgoing = caller_outgoing \<and>
   \<not> addIceCandidate_ok ((env_ok 2500)\<lparr>addIceCandidate_ok := False\<rparr>) \<and>
   on_ice ''me'' ((env_ok 2500)\<lparr>addIceCandidate_ok := False\<rparr>)
     (Some ((from_bob ''call_1000'')\<lparr>p_candidate := Some ''k1''\<rparr>)) caller_active = caller_active \<and>
   map iceCandidates
     (pcs (on_answer ''me'' (env_ok 2000)
        (Some ((from_bob ''call_1000'')\<lparr>p_sdp := Some answer_sdp\<rparr>)) caller_outgoing)) = [[]] \<and>
   pcRef caller_active = Some 0 \<and> 0 < length (pcs caller_active) \<and>
   remoteDescription (pcs caller_active ! 0) \<noteq> None \<and> \<not> pc_closed (pcs caller_active ! 0) \<and>
   p_to (from_bob ''call_1000'') = Some ''me'' \<and> addIceCandidate_ok (env_ok 2500) \<and>
   iceCandidates
     (pcs (run ''me'' (ice_events (env_ok 2500) (from_bob ''call_1000'') [''k1'', ''k2'']) caller_active) ! 0)
     = [''k1'', ''k2'']"
proof -
  have n: "pcRef callee_incoming = None"
    by (simp add: callee_incoming_value initial_page_def)
  have ro: "pcRef caller_outgoing = Some 0" by (simp add: caller_outgoing_value)
  have lo: "0 < length (pcs caller_outgoing)" by (simp add: caller_outgoing_value)
  have nd: "remoteDescription (pcs caller_outgoing ! 0) = None" by (simp add: caller_outgoing_value)
  have co: "map iceCandidates (pcs caller_outgoing) = [[]]" by (simp add: caller_outgoing_value)
  have r: "pcRef caller_active = Some 0" by (simp add: caller_active_value)
  have l: "0 < length (pcs caller_active)" by (simp add: caller_active_value)
  have d: "remoteDescription (pcs caller_active ! 0) \<noteq> None" by (simp add: caller_active_value)
  have op: "\<not> pc_closed (pcs caller_active ! 0)" by (simp add: caller_active_value)
  have t: "p_to (from_bob ''call_1000'') = Some ''me''" by (simp add: from_bob_def)
  have ok: "addIceCandidate_ok (env_ok 2500)" by (simp add: env_ok_def)
  have nok: "\<not> addIceCandidate_ok ((env_ok 2500)\<lparr>addIceCandidate_ok := False\<rparr>)" by simp
  have none: "iceCandidates (pcs caller_active ! 0) = []" by (simp add: caller_active_value)
  from ice_applied_at_once_or_dropped [where s = callee_incoming and myId = "''me''"
      and e = "env_ok 1500" and pl = "Some ((from_bob ''c1'')\<lparr>p_candidate := Some ''k1''\<rparr>)"] n
  have 1: "on_ice ''me'' (env_ok 1500) (Some ((from_bob ''c1'')\<lparr>p_candidate := Some ''k1''\<rparr>))
      callee_incoming = callee_incoming"
    by blast
  from ice_applied_at_once_or_dropped [where s = caller_outgoing and myId = "''me''" and i = 0
      and e = "env_ok 1500" and pl = "Some ((from_bob ''call_1000'')\<lparr>p_candidate := Some ''k1''\<rparr>)"]
    ro lo nd
  have 2: "on_ice ''me'' (env_ok 1500) (Some ((from_bob ''call_1000'')\<lparr>p_candidate := Some ''k1''\<rparr>))
      caller_outgoing = caller_outgoing"
    by blast
  from ice_applied_at_once_or_dropped [where s = caller_active and myId = "''me''"
      and e = "(env_ok 2500)\<lparr>addIceCandidate_ok := False\<rparr>"
      and pl = "Some ((from_bob ''call_1000'')\<lparr>p_candidate := Some ''k1''\<rparr>)"] nok
  have 3: "on_ice ''me'' ((env_ok 2500)\<lparr>addIceCandidate_ok := False\<rparr>)
     (Some ((from_bob ''call_1000'')\<lparr>p_candidate := Some ''k1''\<rparr>)) caller_active = caller_active"
    by blast
  from ice_applied_at_once_or_dropped [where s = caller_outgoing and myId = "''me''"
      and e = "env_ok 2000" and pl = "Some ((from_bob ''call_1000'')\<lparr>p_sdp := Some answer_sdp\<rparr>)"] co
  have 4: "map iceCandidates
     (pcs (on_answer ''me'' (env_ok 2000)
        (Some ((from_bob ''call_1000'')\<lparr>p_sdp := Some answer_sdp\<rparr>)) caller_outgoing)) = [[]]"
    by simp
  from ice_applied_at_once_or_dropped [where s = caller_active and myId = "''me''"
      and e = "env_ok 2500" and i = 0 and p = "from_bob ''call_1000''" and cs = "[''k1'', ''k2'']"]
    r l d op t ok
  have "run ''me'' (ice_events (env_ok 2500) (from_bob ''call_1000'') [''k1'', ''k2'']) caller_active =
      caller_active\<lparr>pcs := (pcs caller_active)[0 := (pcs caller_active ! 0)\<lparr>iceCandidates :=
        iceCandidates (pcs caller_active ! 0) @ [''k1'', ''k2'']\<rparr>]\<rparr>"
    by blast
  then have 5: "iceCandidates
     (pcs (run ''me'' (ice_events (env_ok 2500) (from_bob ''call_1000'') [''k1'', ''k2'']) caller_active) ! 0)
     = [''k1'', ''k2'']"
    using l none by simp
  from n 1 ro lo nd 2 nok 3 4 r l d op t ok 5 show ?thesis by blast
qed


section \<open>A second call while one is live\<close>
















section \<open>A second answer\<close>

text \<open>
  C4, as stated, fails: the \<open>answer\<close> handler does not look at the lifecycle state. The caller
  is in the active call \<open>call_1000\<close>, started at 2000; an \<open>answer\<close> event for that call,
  without a session description, arrives at 9000 and \<open>startedAt\<close> becomes 9000.
\<close>

theorem duplicate_answer_counterexample:
  "callState caller_active = Active \<and> callStartedAt caller_active = Some 2000 \<and>
   p_to (from_bob ''call_1000'') = Some ''me'' \<and>
   p_callId (from_bob ''call_1000'') = activeCallId caller_active \<and>
   callStartedAt (on_broadcast ''me'' (env_ok 9000) EvAnswer (Some (from_bob ''call_1000'')) caller_active)
     = Some 9000"
  by (simp add: caller_active_value flow_defs scen_defs)

text \<open>
  C4, amended. An \<open>answer\<close> event addressed to the local party is processed in the same way
  in every lifecycle state, \<open>Active\<close> included. If it carries an answer description and a
  connection exists, the description is applied to the connection; when that throws, the
  state is left as it was. Otherwise, and after the description has been applied, the
  lifecycle state is set to \<open>Active\<close>, the connection status to \<open>Good\<close> and \<open>startedAt\<close> to the
  current time; the connection is untouched when the event carries no answer description.
\<close>

theorem answer_not_guarded:
  "p_to p = Some myId \<longrightarrow>
     (p_sdp p = Some d \<and> sdp_type d = SdpAnswer \<and> pcRef s = Some i \<and> \<not> setRemoteDescription_ok e \<longrightarrow>
        on_answer myId e (Some p) s = s) \<and>
     (p_sdp p = Some d \<and> sdp_type d = SdpAnswer \<and> pcRef s = Some i \<and> setRemoteDescription_ok e \<longrightarrow>
        on_answer myId e (Some p) s =
          (update_pc i (\<lambda>pc. pc\<lparr>remoteDescription := Some d\<rparr>) s)
            \<lparr>callState := Active, connectionStatus := Good, callStartedAt := Some (now e)\<rparr>) \<and>
     (p_sdp p = None \<or> pcRef s = None \<or> (p_sdp p = Some d \<and> sdp_type d \<noteq> SdpAnswer) \<longrightarrow>
        on_answer myId e (Some p) s =
          s\<lparr>callState := Active, connectionStatus := Good, callStartedAt := Some (now e)\<rparr>)"
  by (auto simp: on_answer_def setRemoteDescription_def split: option.splits)

theorem answer_not_guarded_witness:
  "p_to (from_bob ''call_1000'') = Some ''me'' \<and> callState caller_active = Active \<and>
   p_sdp (from_bob ''call_1000'') = None \<and>
   on_answer ''me'' (env_ok 9000) (Some (from_bob ''call_1000'')) caller_active =
     caller_active\<lparr>callState := Active, connectionStatus := Good, callStartedAt := Some 9000\<rparr> \<and>
   pcRef caller_active = Some 0 \<and> \<not> setRemoteDescription_ok ((env_ok 9000)\<lparr>setRemoteDescription_ok := False\<rparr>) \<and>
   on_answer ''me'' ((env_ok 9000)\<lparr>setRemoteDescription_ok := False\<rparr>)
     (Some ((from_bob ''call_1000'')\<lparr>p_sdp := Some answer_sdp\<rparr>)) caller_active = caller_active"
proof -
  have to: "p_to (from_bob ''call_1000'') = Some ''me''" by (simp add: from_bob_def)
  have act: "callState caller_active = Active" by (simp add: caller_active_value)
  have nosdp: "p_sdp (from_bob ''call_1000'') = None" by (simp add: from_bob_def)
  have pc: "pcRef caller_active = Some 0" by (simp add: caller_active_value)
  have ty: "sdp_type answer_sdp = SdpAnswer" by (simp add: answer_sdp_def)
  have now: "now (env_ok 9000) = 9000" by (simp add: env_ok_def)
  from answer_not_guarded [where p = "from_bob ''call_1000''" and myId = "''me''"
      and s = caller_active and e = "env_ok 9000"] to nosdp now
  have 1: "on_answer ''me'' (env_ok 9000) (Some (from_bob ''call_1000'')) caller_active =
     caller_active\<lparr>callState := Active, connectionStatus := Good, callStartedAt := Some 9000\<rparr>"
    by simp
  from answer_not_guarded [where p = "(from_bob ''call_1000'')\<lparr>p_sdp := Some answer_sdp\<rparr>"
      and myId = "''me''" and s = caller_active and d = answer_sdp and i = 0
      and e = "(env_ok 9000)\<lparr>setRemoteDescription_ok := False\<rparr>"] to pc ty
  have 2: "on_answer ''me'' ((env_ok 9000)\<lparr>setRemoteDescription_ok := False\<rparr>)
     (Some ((from_bob ''call_1000'')\<lparr>p_sdp := Some answer_sdp\<rparr>)) caller_active = caller_active"
    by simp
  from to act nosdp 1 pc 2 show ?thesis by simp
qed

section \<open>Setup failure while answering\<close>

text \<open>
  C6 holds on the caller's path and fails on the callee's. The capture devices are refused.
  The callee, holding bob's offer for the call \<open>c1\<close>, answers: the \<^verbatim>\<open>catch\<close> of \<open>onAnswer\<close> is
  empty, so the modal stays open in state \<open>Incoming\<close> with the call identifier set and the
  connection created by \<open>setupPeerConnection\<close> still referenced and open. On the caller's
  path the same refusal closes the session and clears the connection reference.
\<close>

theorem answer_failure_not_torn_down:
  "getUserMedia (env_no_media 3000) = None \<and>
   callOpen (onAnswer (env_no_media 3000) (Some me) callee_incoming) \<and>
   callState (onAnswer (env_no_media 3000) (Some me) callee_incoming) = Incoming \<and>
   activeCallId (onAnswer (env_no_media 3000) (Some me) callee_incoming) = Some ''c1'' \<and>
   pcRef (onAnswer (env_no_media 3000) (Some me) callee_incoming) = Some 0 \<and>
   \<not> pc_closed (pcs (onAnswer (env_no_media 3000) (Some me) callee_incoming) ! 0) \<and>
   \<not> callOpen (handleStartCall (env_no_media 3000) (Some bob) (Some me) initial_page) \<and>
   pcRef (handleStartCall (env_no_media 3000) (Some bob) (Some me) initial_page) = None"
  by (simp add: callee_incoming_value initial_page_def flow_defs scen_defs)


end
